theory Spec2Isabelle
  imports Complex_Main "HOL-Library.Char_ord" "HOL-Library.List_Lexorder"
begin

section \<open>JavaScript values used by the HTTP core\<close>

text \<open>
  Counts, status codes, identifiers and clock readings are \<open>int\<close>. Delays and the backoff
  factor are IEEE 754 doubles, the type \<open>double\<close> below. The result of \<open>parseInt\<close> is an
  integer or \<open>NaN\<close>, the type \<open>jsnum\<close>. An optional property or parameter that is
  \<open>undefined\<close> is \<open>None\<close>.
\<close>

datatype jsnum = NaN | Fin int

subsection \<open>Doubles\<close>

text \<open>
  A JavaScript number: \<open>Finite x\<close> is the finite double whose value is the real \<open>x\<close>. The two
  zeros are one value: nothing in this code tells them apart.
\<close>

datatype double = NotANumber | PlusInfinity | MinusInfinity | Finite real

text \<open>Rounding to the nearest integer, a tie going to the even one.\<close>

definition round_even :: "real \<Rightarrow> int" where
  "round_even x =
     (let f = \<lfloor>x\<rfloor>
      in if x - of_int f < 1 / 2 then f
         else if x - of_int f > 1 / 2 then f + 1
         else if even f then f else f + 1)"

text \<open>
  The binary exponent of a real other than 0, not below that of the subnormal numbers,
  and the distance \<open>ulp\<close> between neighbouring doubles of that exponent (53 significant
  bits).
\<close>

definition expo :: "real \<Rightarrow> int" where
  "expo x = max (- 1022) \<lfloor>log 2 \<bar>x\<bar>\<rfloor>"

definition ulp :: "real \<Rightarrow> real" where
  "ulp x = power_int 2 (expo x - 52)"

definition nearest :: "real \<Rightarrow> real" where
  "nearest x = (if x = 0 then 0 else of_int (round_even (x / ulp x)) * ulp x)"

text \<open>
  The double a real result is rounded to (round to nearest, ties to even): an infinity
  once the rounded magnitude reaches \<open>2 ^ 1024\<close>.
\<close>

definition to_double :: "real \<Rightarrow> double" where
  "to_double x =
     (let y = nearest x
      in if y \<ge> 2 ^ 1024 then PlusInfinity
         else if y \<le> - (2 ^ 1024) then MinusInfinity
         else Finite y)"

text \<open>The comparison \<open>x <= y\<close>: false as soon as one side is \<open>NaN\<close>.\<close>

fun double_le :: "double \<Rightarrow> double \<Rightarrow> bool" where
  "double_le NotANumber y = False"
| "double_le x NotANumber = False"
| "double_le MinusInfinity y = True"
| "double_le x PlusInfinity = True"
| "double_le PlusInfinity y = False"
| "double_le x MinusInfinity = False"
| "double_le (Finite a) (Finite b) = (a \<le> b)"

definition negative :: "double \<Rightarrow> bool" where
  "negative x = (case x of MinusInfinity \<Rightarrow> True | Finite a \<Rightarrow> a < 0 | _ \<Rightarrow> False)"

text \<open>
  The product \<open>x * y\<close>: \<open>NaN\<close> for a \<open>NaN\<close> operand and for an infinity times zero, an
  infinity with the product's sign for an infinity times anything else, and the rounded
  exact product of two finite doubles.
\<close>

definition mul :: "double \<Rightarrow> double \<Rightarrow> double" where
  "mul x y =
     (case (x, y) of
        (NotANumber, _) \<Rightarrow> NotANumber
      | (_, NotANumber) \<Rightarrow> NotANumber
      | (Finite a, Finite b) \<Rightarrow> to_double (a * b)
      | _ \<Rightarrow> if x = Finite 0 \<or> y = Finite 0 then NotANumber
             else if negative x = negative y then PlusInfinity else MinusInfinity)"

text \<open>\<open>Math.min(x, y)\<close>: \<open>NaN\<close> when an argument is \<open>NaN\<close>.\<close>

definition Math_min :: "double \<Rightarrow> double \<Rightarrow> double" where
  "Math_min x y =
     (if x = NotANumber \<or> y = NotANumber then NotANumber
      else if double_le x y then x else y)"

text \<open>A property that may be \<open>undefined\<close>, used as a number: \<open>undefined\<close> converts to \<open>NaN\<close>.\<close>

definition num :: "double option \<Rightarrow> double" where
  "num v = (case v of Some x \<Rightarrow> x | None \<Rightarrow> NotANumber)"

subsection \<open>Text and JSON\<close>

text \<open>Decimal rendering of an integer, as a template literal renders a number.\<close>

fun string_of_nat :: "nat \<Rightarrow> string" where
  "string_of_nat n =
     (if n < 10 then [''0123456789'' ! n]
      else string_of_nat (n div 10) @ [''0123456789'' ! (n mod 10)])"

definition string_of_int :: "int \<Rightarrow> string" where
  "string_of_int i = (if i < 0 then CHR ''-'' # string_of_nat (nat (- i)) else string_of_nat (nat i))"

text \<open>
  \<open>parseInt(s, 10)\<close>: leading white space (here the ASCII one) is skipped, then an
  optional sign, then the longest prefix of decimal digits; without a digit the result is
  \<open>NaN\<close>.
\<close>

definition is_space :: "char \<Rightarrow> bool" where
  "is_space c = (c \<in> set [CHR '' '', CHR 0x09, CHR 0x0A, CHR 0x0B, CHR 0x0C, CHR 0x0D])"

definition is_digit :: "char \<Rightarrow> bool" where
  "is_digit c = (CHR ''0'' \<le> c \<and> c \<le> CHR ''9'')"

definition digits_value :: "string \<Rightarrow> int" where
  "digits_value ds = foldl (\<lambda>acc c. 10 * acc + (int (of_char c) - 48)) 0 ds"

definition parseInt :: "string \<Rightarrow> jsnum" where
  "parseInt s =
     (let t = dropWhile is_space s;
          (neg, u) = (case t of
                        c # r \<Rightarrow> if c = CHR ''-'' then (True, r)
                                 else if c = CHR ''+'' then (False, r) else (False, t)
                      | [] \<Rightarrow> (False, t));
          ds = takeWhile is_digit u
      in if ds = [] then NaN
         else Fin (if neg then - digits_value ds else digits_value ds))"

text \<open>A parsed JSON document (numbers restricted to integers).\<close>

datatype json =
    JNull
  | JBool bool
  | JNumber int
  | JString string
  | JArray "json list"
  | JObject "(string \<times> json) list"

fun join_with :: "string \<Rightarrow> string list \<Rightarrow> string" where
  "join_with sep [] = []"
| "join_with sep [x] = x"
| "join_with sep (x # y # ys) = x @ sep @ join_with sep (y # ys)"

text \<open>\<open>String(v)\<close> for a JSON value \<open>v\<close>.\<close>

fun js_String :: "json \<Rightarrow> string" where
  "js_String JNull = ''null''"
| "js_String (JBool b) = (if b then ''true'' else ''false'')"
| "js_String (JNumber n) = string_of_int n"
| "js_String (JString s) = s"
| "js_String (JArray xs) =
     join_with '','' (map (\<lambda>x. if x = JNull then [] else js_String x) xs)"
| "js_String (JObject kvs) = ''[object Object]''"

section \<open>Error classes (errors.ts)\<close>

datatype error_class =
    StravaError
  | StravaAuthError
  | StravaRateLimitError
  | StravaNotFoundError
  | StravaValidationError
  | StravaServerError

text \<open>
  The \<open>response\<close> property of an error: the provider's error payload, or the caught value
  the request layer wraps.
\<close>

datatype payload =
    NoPayload
  | JsonPayload json
  | TextPayload string
  | CaughtError string string
  | CaughtValue

text \<open>
  An instance of \<open>StravaError\<close> or of one of its subclasses; \<open>name\<close> identifies the class.
  The properties of the subclasses are \<open>None\<close> where the class does not set them.
\<close>

record strava_error =
  name :: error_class
  message :: string
  statusCode :: "int option"
  response :: payload
  retryAfter :: "jsnum option"
  limit :: "jsnum option"
  usage :: "jsnum option"
  errors :: "json option"

definition new_StravaError :: "error_class \<Rightarrow> string \<Rightarrow> int option \<Rightarrow> payload \<Rightarrow> strava_error" where
  "new_StravaError c msg sc resp =
     \<lparr>name = c, message = msg, statusCode = sc, response = resp,
      retryAfter = None, limit = None, usage = None, errors = None\<rparr>"

definition new_StravaRateLimitError ::
  "string \<Rightarrow> int option \<Rightarrow> payload \<Rightarrow> jsnum option \<Rightarrow> jsnum option \<Rightarrow> jsnum option \<Rightarrow> strava_error" where
  "new_StravaRateLimitError msg sc resp ra lmt usg =
     (new_StravaError StravaRateLimitError msg sc resp)\<lparr>retryAfter := ra, limit := lmt, usage := usg\<rparr>"

definition new_StravaValidationError ::
  "string \<Rightarrow> int option \<Rightarrow> payload \<Rightarrow> json option \<Rightarrow> strava_error" where
  "new_StravaValidationError msg sc resp errs =
     (new_StravaError StravaValidationError msg sc resp)\<lparr>errors := errs\<rparr>"

text \<open>
  Values a promise can reject with: \<open>undefined\<close>, a Strava error, another \<open>Error\<close> instance
  (its name and message), or any other value that is not an \<open>Error\<close>; \<open>Other (Some c)\<close> is
  an object with a \<open>statusCode\<close> property holding the number \<open>c\<close>, \<open>Other None\<close> a value
  without one.
\<close>

datatype thrown =
    Undefined
  | Strava strava_error
  | JsError string string
  | Other "int option"

section \<open>Retry with exponential backoff (retry.ts)\<close>

text \<open>
  The configuration \<open>withRetry\<close> works with. Its type promises every field, but a caller can
  set a field to \<open>undefined\<close>, and the merge below keeps that: a field is \<open>None\<close> then.
  \<open>maxAttempts\<close> is a count and the status codes are integers.
\<close>

record RetryConfig =
  maxAttempts :: "int option"
  initialDelay :: "double option"
  maxDelay :: "double option"
  backoffFactor :: "double option"
  retryableStatusCodes :: "int list option"

text \<open>
  The caller's settings: a property is left out, or it is there with the value
  \<open>undefined\<close>, or it is there with a value.
\<close>

datatype 'a setting = Omitted | GivenUndefined | Given 'a

record RetryOptions =
  maxAttempts_opt :: "int setting"
  initialDelay_opt :: "double setting"
  maxDelay_opt :: "double setting"
  backoffFactor_opt :: "double setting"
  retryableStatusCodes_opt :: "int list setting"

definition DEFAULT_RETRY_CONFIG :: RetryConfig where
  "DEFAULT_RETRY_CONFIG =
     \<lparr>maxAttempts = Some 3, initialDelay = Some (Finite 1000), maxDelay = Some (Finite 10000),
      backoffFactor = Some (Finite 2), retryableStatusCodes = Some [429, 500, 502, 503, 504]\<rparr>"

text \<open>
  \<open>{ ...DEFAULT_RETRY_CONFIG, ...config }\<close>, where \<open>config\<close> itself may be absent: the spread
  copies every property \<open>config\<close> has over the default, also one whose value is
  \<open>undefined\<close>; a property \<open>config\<close> leaves out keeps the default.
\<close>

definition spread :: "'a option \<Rightarrow> 'a setting \<Rightarrow> 'a option" where
  "spread dflt s = (case s of Omitted \<Rightarrow> dflt | GivenUndefined \<Rightarrow> None | Given v \<Rightarrow> Some v)"

definition mergeConfig :: "RetryOptions option \<Rightarrow> RetryConfig" where
  "mergeConfig config =
     (case config of
        None \<Rightarrow> DEFAULT_RETRY_CONFIG
      | Some c \<Rightarrow>
          \<lparr>maxAttempts = spread (maxAttempts DEFAULT_RETRY_CONFIG) (maxAttempts_opt c),
           initialDelay = spread (initialDelay DEFAULT_RETRY_CONFIG) (initialDelay_opt c),
           maxDelay = spread (maxDelay DEFAULT_RETRY_CONFIG) (maxDelay_opt c),
           backoffFactor = spread (backoffFactor DEFAULT_RETRY_CONFIG) (backoffFactor_opt c),
           retryableStatusCodes =
             spread (retryableStatusCodes DEFAULT_RETRY_CONFIG) (retryableStatusCodes_opt c)\<rparr>)"

text \<open>
  \<open>Math.pow\<close> is the engine's: the language leaves its result an approximation that the
  implementation chooses, so it is the parameter \<open>pow\<close>. The attempt number is the loop
  counter, converted to a double.
\<close>

definition calculateDelay ::
  "(double \<Rightarrow> double \<Rightarrow> double) \<Rightarrow> int \<Rightarrow> RetryConfig \<Rightarrow> double option \<Rightarrow> double" where
  "calculateDelay pow attempt config retry_after =
     (case retry_after of
        Some r \<Rightarrow> Math_min (mul r (Finite 1000)) (num (maxDelay config))
      | None \<Rightarrow>
          (let delay = mul (num (initialDelay config))
                         (pow (num (backoffFactor config)) (to_double (of_int (attempt - 1))))
           in Math_min delay (num (maxDelay config))))"

text \<open>
  \<open>isRetryable\<close>: calling \<open>includes\<close> on a set that is \<open>undefined\<close> throws a \<open>TypeError\<close>
  (\<open>Inl\<close>).
\<close>

definition isRetryable :: "int option \<Rightarrow> RetryConfig \<Rightarrow> thrown + bool" where
  "isRetryable sc config =
     (case sc of
        None \<Rightarrow> Inr True
      | Some c \<Rightarrow>
          (case retryableStatusCodes config of
             None \<Rightarrow> Inl (JsError ''TypeError'' ''Cannot read properties of undefined'')
           | Some codes \<Rightarrow> Inr (c \<in> set codes)))"

text \<open>
  \<open>error && typeof error === "object" && "statusCode" in error ? error.statusCode : undefined\<close>
\<close>

fun statusCodeOf :: "thrown \<Rightarrow> int option" where
  "statusCodeOf Undefined = None"
| "statusCodeOf (Strava e) = statusCode e"
| "statusCodeOf (JsError n m) = None"
| "statusCodeOf (Other sc) = sc"

text \<open>
  An attempt \<open>fn\<close> is a computation on the outside world \<open>'w\<close> (network, clock): it returns
  the value the promise resolves with (\<open>Inr\<close>) or the value it rejects with (\<open>Inl\<close>), and
  the world afterwards. \<open>withRetry\<close> runs on a pair: the delays slept so far, oldest
  first, and the world.
\<close>

type_synonym ('a, 'w) attempt = "'w \<Rightarrow> (thrown + 'a) \<times> 'w"

definition sleep :: "double \<Rightarrow> double list \<times> 'w \<Rightarrow> double list \<times> 'w" where
  "sleep ms s = (fst s @ [ms], snd s)"

text \<open>
  The comparisons of the loop counter with \<open>maxAttempts\<close>: both are false when
  \<open>maxAttempts\<close> is \<open>undefined\<close>.
\<close>

definition counter_le :: "int \<Rightarrow> int option \<Rightarrow> bool" where
  "counter_le attempt m = (case m of Some k \<Rightarrow> attempt \<le> k | None \<Rightarrow> False)"

definition counter_ge :: "int \<Rightarrow> int option \<Rightarrow> bool" where
  "counter_ge attempt m = (case m of Some k \<Rightarrow> attempt \<ge> k | None \<Rightarrow> False)"

text \<open>
  The \<open>for\<close> loop of \<open>withRetry\<close>, from the test \<open>attempt <= maxAttempts\<close> on; leaving the
  loop reaches \<open>throw lastError\<close>. An exception inside the \<open>catch\<close> block (the \<open>TypeError\<close>
  of \<open>isRetryable\<close>) leaves \<open>withRetry\<close> at once.
\<close>

function withRetry_loop ::
  "(double \<Rightarrow> double \<Rightarrow> double) \<Rightarrow> ('a, 'w) attempt \<Rightarrow> RetryConfig \<Rightarrow>
   (thrown \<Rightarrow> double option) option \<Rightarrow> int \<Rightarrow> thrown \<Rightarrow> double list \<times> 'w \<Rightarrow>
   (thrown + 'a) \<times> double list \<times> 'w" where
  "withRetry_loop pow fn retryConfig getRetryAfter attempt lastError s =
     (if counter_le attempt (maxAttempts retryConfig) then
        (case fst (fn (snd s)) of
           Inr v \<Rightarrow> (Inr v, fst s, snd (fn (snd s)))
         | Inl error \<Rightarrow>
             if counter_ge attempt (maxAttempts retryConfig)
               then (Inl error, fst s, snd (fn (snd s)))
             else
               (case isRetryable (statusCodeOf error) retryConfig of
                  Inl typeError \<Rightarrow> (Inl typeError, fst s, snd (fn (snd s)))
                | Inr False \<Rightarrow> (Inl error, fst s, snd (fn (snd s)))
                | Inr True \<Rightarrow>
                    (let retry_after = (case getRetryAfter of Some g \<Rightarrow> g error | None \<Rightarrow> None);
                         delay = calculateDelay pow attempt retryConfig retry_after
                     in withRetry_loop pow fn retryConfig getRetryAfter (attempt + 1) error
                          (sleep delay (fst s, snd (fn (snd s)))))))
      else (Inl lastError, s))"
  by pat_completeness auto
termination
  by (relation "measure (\<lambda>(pow, fn, rc, g, attempt, le, s).
        case maxAttempts rc of Some m \<Rightarrow> nat (m + 1 - attempt) | None \<Rightarrow> 0)")
    (auto simp add: counter_le_def counter_ge_def split: option.splits)

definition withRetry ::
  "(double \<Rightarrow> double \<Rightarrow> double) \<Rightarrow> ('a, 'w) attempt \<Rightarrow> RetryOptions option \<Rightarrow>
   (thrown \<Rightarrow> double option) option \<Rightarrow> 'w \<Rightarrow> (thrown + 'a) \<times> double list \<times> 'w" where
  "withRetry pow fn config getRetryAfter w =
     withRetry_loop pow fn (mergeConfig config) getRetryAfter 1 Undefined ([], w)"

text \<open>
  An observer around an attempt function: it keeps, next to the world, the outcome of
  every invocation, oldest first. The number of invocations is the length of that list.
\<close>

definition spy :: "('a, 'w) attempt \<Rightarrow> ('a, 'w \<times> (thrown + 'a) list) attempt" where
  "spy fn s = (fst (fn (fst s)), (snd (fn (fst s)), snd s @ [fst (fn (fst s))]))"

section \<open>Request deduplication (deduplication.ts)\<close>

text \<open>
  A pending result (a promise) is a value of type \<open>'p\<close>; a factory is a computation on the
  world that creates one. The cache is the \<open>Map\<close> from keys to entries; \<open>Date.now()\<close> is
  passed in as \<open>now\<close>.
\<close>

record 'p CacheEntry =
  promise :: 'p
  timestamp :: int

record 'p RequestDeduplicator =
  cache :: "string \<rightharpoonup> 'p CacheEntry"
  cleanupInterval :: "nat option"
  windowMs :: int

text \<open>
  The constructor, with the timer handle \<open>setInterval\<close> returns; the window defaults to
  5000 ms.
\<close>

definition new_RequestDeduplicator :: "int option \<Rightarrow> nat \<Rightarrow> 'p RequestDeduplicator" where
  "new_RequestDeduplicator window handle =
     \<lparr>cache = Map.empty, cleanupInterval = Some handle,
      windowMs = (case window of Some v \<Rightarrow> v | None \<Rightarrow> 5000)\<rparr>"

text \<open>
  The request body as the key sees it: a falsy body adds no part; otherwise the part is
  \<open>JSON.stringify(body)\<close> (the empty text when that is \<open>undefined\<close>, as \<open>join\<close> renders it),
  or \<open>String(body)\<close> when \<open>JSON.stringify\<close> throws. A query object is the list of its
  properties, each value already rendered by \<open>String\<close>; an object has each key once, and
  of a list that repeats a key the first binding counts. \<open>sort()\<close> orders the keys by
  character code.
\<close>

datatype req_body = Falsy | Serialised string | Unserialisable string

type_synonym query = "(string \<times> string) list"

definition generateKey :: "string \<Rightarrow> string \<Rightarrow> query option \<Rightarrow> req_body \<Rightarrow> string" where
  "generateKey method path query body =
     (let parts = [method, path];
          parts = (case query of
                     Some q \<Rightarrow>
                       parts @ [join_with ''&''
                         (map (\<lambda>key. key @ ''='' @ (case map_of q key of Some v \<Rightarrow> v | None \<Rightarrow> ''undefined''))
                            (sort (remdups (map fst q))))]
                   | None \<Rightarrow> parts);
          parts = (case body of
                     Falsy \<Rightarrow> parts
                   | Serialised bodyHash \<Rightarrow> parts @ [bodyHash]
                   | Unserialisable str \<Rightarrow> parts @ [str])
      in join_with ''|'' parts)"

definition getOrCreate ::
  "'p RequestDeduplicator \<Rightarrow> int \<Rightarrow> string \<Rightarrow> string \<Rightarrow> query option \<Rightarrow> req_body \<Rightarrow>
   ('w \<Rightarrow> 'p \<times> 'w) \<Rightarrow> 'w \<Rightarrow> 'p \<times> 'p RequestDeduplicator \<times> 'w" where
  "getOrCreate d now method path query body factory w =
     (let key = generateKey method path query body;
          fresh = (let created = factory w
                   in (fst created,
                       d\<lparr>cache := (cache d)(key \<mapsto> \<lparr>promise = fst created, timestamp = now\<rparr>)\<rparr>,
                       snd created))
      in case cache d key of
           Some cached \<Rightarrow>
             if now - timestamp cached < windowMs d then (promise cached, d, w) else fresh
         | None \<Rightarrow> fresh)"

definition cleanup :: "'p RequestDeduplicator \<Rightarrow> int \<Rightarrow> 'p RequestDeduplicator" where
  "cleanup d now =
     d\<lparr>cache := (\<lambda>key. case cache d key of
                       Some entry \<Rightarrow> if now - timestamp entry \<ge> windowMs d then None else Some entry
                     | None \<Rightarrow> None)\<rparr>"

definition destroy :: "'p RequestDeduplicator \<Rightarrow> 'p RequestDeduplicator" where
  "destroy d = d\<lparr>cleanupInterval := None, cache := Map.empty\<rparr>"

text \<open>
  A sequence of calls for one request \<open>(method, path, query, body)\<close>, each with its clock
  reading and its own factory; the result lists what each caller received.
\<close>

fun getOrCreate_calls ::
  "'p RequestDeduplicator \<Rightarrow> string \<Rightarrow> string \<Rightarrow> query option \<Rightarrow> req_body \<Rightarrow>
   (int \<times> ('w \<Rightarrow> 'p \<times> 'w)) list \<Rightarrow> 'w \<Rightarrow> 'p list \<times> 'p RequestDeduplicator \<times> 'w" where
  "getOrCreate_calls d method path query body [] w = ([], d, w)"
| "getOrCreate_calls d method path query body (c # cs) w =
     (let first = getOrCreate d (fst c) method path query body (snd c) w;
          later = getOrCreate_calls (fst (snd first)) method path query body cs (snd (snd first))
      in (fst first # fst later, snd later))"

section \<open>The request layer (request.ts)\<close>

type_synonym headers = "string \<Rightarrow> string option"

record RateLimitInfo =
  shortTermLimit :: "jsnum option"
  shortTermUsage :: "jsnum option"
  dailyLimit :: "jsnum option"
  dailyUsage :: "jsnum option"

text \<open>A header that is present and not empty is parsed; of a usage header, the part before the first comma.\<close>

definition header_number :: "string option \<Rightarrow> jsnum option" where
  "header_number h = (case h of Some s \<Rightarrow> if s \<noteq> [] then Some (parseInt s) else None | None \<Rightarrow> None)"

definition header_first_number :: "string option \<Rightarrow> jsnum option" where
  "header_first_number h =
     (case h of
        Some s \<Rightarrow> if s \<noteq> [] then Some (parseInt (takeWhile (\<lambda>c. c \<noteq> CHR '','') s)) else None
      | None \<Rightarrow> None)"

definition extractRateLimitInfo :: "headers \<Rightarrow> RateLimitInfo" where
  "extractRateLimitInfo hs =
     \<lparr>shortTermLimit = header_number (hs ''X-RateLimit-Limit''),
      shortTermUsage = header_first_number (hs ''X-RateLimit-Usage''),
      dailyLimit = header_number (hs ''X-RateLimit-Limit-Daily''),
      dailyUsage = header_first_number (hs ''X-RateLimit-Usage-Daily'')\<rparr>"

text \<open>
  A response: \<open>json_body\<close> is the outcome of \<open>response.json()\<close> (it rejects when the body
  is not JSON or the read is aborted), \<open>text_body\<close> that of \<open>response.text()\<close>.
\<close>

record Response =
  status :: int
  statusText :: string
  headers :: headers
  json_body :: "thrown + json"
  text_body :: "string option"

definition ok :: "Response \<Rightarrow> bool" where
  "ok r = (200 \<le> status r \<and> status r \<le> 299)"

text \<open>The property \<open>key\<close> of a parsed object; a later duplicate key wins, as in \<open>JSON.parse\<close>.\<close>

definition property :: "payload \<Rightarrow> string \<Rightarrow> json option" where
  "property errorData key =
     (case errorData of JsonPayload (JObject kvs) \<Rightarrow> map_of (rev kvs) key | _ \<Rightarrow> None)"

definition createErrorFromResponse :: "Response \<Rightarrow> strava_error" where
  "createErrorFromResponse r =
     (let sc = status r;
          errorData = (case json_body r of
                         Inr j \<Rightarrow> JsonPayload j
                       | Inl e \<Rightarrow> (case text_body r of Some t \<Rightarrow> TextPayload t | None \<Rightarrow> NoPayload));
          msg = (case property errorData ''message'' of
                   Some v \<Rightarrow> js_String v
                 | None \<Rightarrow> ''HTTP '' @ string_of_int sc @ '': '' @ statusText r);
          rateLimitInfo = extractRateLimitInfo (headers r);
          retry_after = headers r ''Retry-After''
      in if sc = 401 \<or> sc = 403 then new_StravaError StravaAuthError msg (Some sc) errorData
         else if sc = 404 then new_StravaError StravaNotFoundError msg (Some sc) errorData
         else if sc = 422 then
           new_StravaValidationError msg (Some sc) errorData (property errorData ''errors'')
         else if sc = 429 then
           new_StravaRateLimitError msg (Some sc) errorData (header_number retry_after)
             (shortTermLimit rateLimitInfo) (shortTermUsage rateLimitInfo)
         else if sc = 500 \<or> sc = 502 \<or> sc = 503 \<or> sc = 504 then
           new_StravaError StravaServerError msg (Some sc) errorData
         else new_StravaError StravaError msg (Some sc) errorData)"

text \<open>
  The \<open>catch\<close> block of \<open>makeRequest\<close>: a Strava error is thrown again as it is; an
  \<open>Error\<close> named \<open>AbortError\<close> (the timeout's abort) becomes the timeout failure; anything
  else becomes a generic failure with the caught message.
\<close>

definition timeoutMessage :: "int \<Rightarrow> string" where
  "timeoutMessage timeout = ''Request timeout after '' @ string_of_int timeout @ ''ms''"

fun makeRequest_catch :: "int \<Rightarrow> thrown \<Rightarrow> thrown" where
  "makeRequest_catch timeout (Strava e) = Strava e"
| "makeRequest_catch timeout (JsError n m) =
     (if n = ''AbortError''
      then Strava (new_StravaError StravaError (timeoutMessage timeout) None (CaughtError n m))
      else Strava (new_StravaError StravaError m None (CaughtError n m)))"
| "makeRequest_catch timeout Undefined =
     Strava (new_StravaError StravaError ''Unknown error'' None CaughtValue)"
| "makeRequest_catch timeout (Other sc) =
     Strava (new_StravaError StravaError ''Unknown error'' None CaughtValue)"

text \<open>
  The rate limiter (rate-limiter.ts) is a collaborator given by its three operations on
  the world: \<open>waitForAvailability\<close> admits the caller (\<open>None\<close>) or rejects, the other two
  only change the world. \<open>fetch\<close> stands for the expression \<open>await fetch(url, {...})\<close> with
  the request already built; it resolves with a response or rejects. The timeout's timer
  aborts it through the signal, which makes it reject with an \<open>Error\<close> named \<open>AbortError\<close>.
\<close>

record 'w RateLimiter =
  waitForAvailability :: "'w \<Rightarrow> thrown option \<times> 'w"
  updateFromHeaders :: "headers \<Rightarrow> 'w \<Rightarrow> 'w"
  processQueue :: "'w \<Rightarrow> 'w"

datatype fetch_outcome = Rejected thrown | Resolved Response

definition makeRequest ::
  "'w RateLimiter option \<Rightarrow> int \<Rightarrow> (json \<Rightarrow> 'a) \<Rightarrow> ('w \<Rightarrow> fetch_outcome \<times> 'w) \<Rightarrow> ('a, 'w) attempt" where
  "makeRequest rateLimiter timeout applyTransformations fetch w =
     (let admitted = (case rateLimiter of Some rl \<Rightarrow> waitForAvailability rl w | None \<Rightarrow> (None, w))
      in case fst admitted of
           Some e \<Rightarrow> (Inl e, snd admitted)
         | None \<Rightarrow>
             (let fetched = fetch (snd admitted)
              in case fst fetched of
                   Rejected error \<Rightarrow> (Inl (makeRequest_catch timeout error), snd fetched)
                 | Resolved r \<Rightarrow>
                     (let w' = (case rateLimiter of
                                  Some rl \<Rightarrow> processQueue rl (updateFromHeaders rl (headers r) (snd fetched))
                                | None \<Rightarrow> snd fetched)
                      in if \<not> ok r
                         then (Inl (makeRequest_catch timeout (Strava (createErrorFromResponse r))), w')
                         else (case json_body r of
                                 Inr rawData \<Rightarrow> (Inr (applyTransformations rawData), w')
                               | Inl error \<Rightarrow> (Inl (makeRequest_catch timeout error), w')))))"

text \<open>The retry-after extractor \<open>request\<close> hands to \<open>withRetry\<close>.\<close>

definition request_getRetryAfter :: "thrown \<Rightarrow> double option" where
  "request_getRetryAfter error =
     (case error of
        Strava e \<Rightarrow>
          if name e = StravaRateLimitError
          then (case retryAfter e of
                  Some (Fin n) \<Rightarrow> if n \<noteq> 0 then Some (to_double (of_int n)) else None
                | _ \<Rightarrow> None)
          else None
      | _ \<Rightarrow> None)"

section \<open>Tokens (token-store.ts, oauth.ts)\<close>

record TokenData =
  accessToken :: string
  refreshToken :: string
  expiresAt :: int
  tokenType :: string
  scope :: "string option"
  athleteId :: "int option"

text \<open>The token store is the in-memory one: it holds a token or \<open>null\<close>, and no operation fails.\<close>

type_synonym MemoryTokenStore = "TokenData option"

definition store_get :: "MemoryTokenStore \<Rightarrow> TokenData option" where
  "store_get st = st"

definition store_set :: "TokenData \<Rightarrow> MemoryTokenStore \<Rightarrow> MemoryTokenStore" where
  "store_set token st = Some token"

definition store_clear :: "MemoryTokenStore \<Rightarrow> MemoryTokenStore" where
  "store_clear st = None"

text \<open>The token endpoint's reply; \<open>athlete\<close> is \<open>data.athlete?.id\<close>.\<close>

record TokenResponse =
  token_type :: string
  expires_at :: int
  expires_in :: int
  refresh_token :: string
  access_token :: string
  athlete :: "int option"

text \<open>
  The outcome of the \<open>fetch\<close> of the token endpoint: it rejects; or the response is ok
  and \<open>response.json()\<close> rejects or yields the token reply (the source reads the document
  as a \<open>TokenResponse\<close> unchecked); or the response is not ok, with its status, status
  text and the error document if the body is JSON.
\<close>

datatype token_fetch =
    FetchRejected thrown
  | Granted "thrown + TokenResponse"
  | Refused int string "json option"

definition js_truthy :: "json \<Rightarrow> bool" where
  "js_truthy v =
     (case v of JNull \<Rightarrow> False | JBool b \<Rightarrow> b | JNumber n \<Rightarrow> n \<noteq> 0 | JString s \<Rightarrow> s \<noteq> [] | _ \<Rightarrow> True)"

text \<open>
  \<open>response.json().catch(() => ({ message: response.statusText }))\<close>, then
  \<open>error.message || response.statusText\<close>; reading \<open>message\<close> of \<open>null\<close> throws.
\<close>

definition refusal :: "string \<Rightarrow> int \<Rightarrow> string \<Rightarrow> json option \<Rightarrow> thrown" where
  "refusal prefix st stText body =
     (let error = (case body of Some j \<Rightarrow> j | None \<Rightarrow> JObject [(''message'', JString stText)])
      in if error = JNull then JsError ''TypeError'' ''Cannot read properties of null''
         else Strava (new_StravaError StravaAuthError
                (prefix @ (case property (JsonPayload error) ''message'' of
                             Some v \<Rightarrow> if js_truthy v then js_String v else stText
                           | None \<Rightarrow> stText))
                (Some st) (JsonPayload error)))"

definition refresh_params :: "string \<Rightarrow> string \<Rightarrow> string \<Rightarrow> (string \<times> string) list" where
  "refresh_params refresh_tok client_id client_secret =
     [(''client_id'', client_id), (''client_secret'', client_secret),
      (''refresh_token'', refresh_tok), (''grant_type'', ''refresh_token'')]"

definition refreshAccessToken ::
  "string \<Rightarrow> string \<Rightarrow> string \<Rightarrow> ((string \<times> string) list \<Rightarrow> 'n \<Rightarrow> token_fetch \<times> 'n) \<Rightarrow>
   'n \<Rightarrow> (thrown + TokenData) \<times> 'n" where
  "refreshAccessToken refresh_tok client_id client_secret fetch w =
     (let fetched = fetch (refresh_params refresh_tok client_id client_secret) w
      in (case fst fetched of
            FetchRejected e \<Rightarrow> Inl e
          | Refused st stText body \<Rightarrow> Inl (refusal ''Failed to refresh token: '' st stText body)
          | Granted (Inl e) \<Rightarrow> Inl e
          | Granted (Inr data) \<Rightarrow>
              Inr \<lparr>accessToken = access_token data, refreshToken = refresh_token data,
                   expiresAt = expires_at data, tokenType = token_type data,
                   scope = None, athleteId = athlete data\<rparr>,
          snd fetched))"

text \<open>\<open>Math.floor(Date.now() / 1000)\<close> is \<open>nowMs div 1000\<close>.\<close>

definition isTokenExpired :: "TokenData \<Rightarrow> int \<Rightarrow> int \<Rightarrow> bool" where
  "isTokenExpired token bufferSeconds nowMs =
     (let now = nowMs div 1000 in expiresAt token \<le> now + bufferSeconds)"

record OAuthManager =
  tokenStore :: MemoryTokenStore
  clientId :: string
  clientSecret :: string

text \<open>\<open>a || b\<close> on optional numbers: \<open>undefined\<close> and \<open>0\<close> are falsy.\<close>

definition js_or :: "int option \<Rightarrow> int option \<Rightarrow> int option" where
  "js_or a b = (case a of Some x \<Rightarrow> if x \<noteq> 0 then Some x else b | None \<Rightarrow> b)"

text \<open>
  \<open>OAuthManager.getToken\<close>: the result is the token or \<open>null\<close> (\<open>Inr\<close>), or the value the
  call rejects with (\<open>Inl\<close>); the manager with its store and the world come back updated.
\<close>

definition getToken ::
  "OAuthManager \<Rightarrow> int \<Rightarrow> ((string \<times> string) list \<Rightarrow> 'n \<Rightarrow> token_fetch \<times> 'n) \<Rightarrow> 'n \<Rightarrow>
   (thrown + TokenData option) \<times> OAuthManager \<times> 'n" where
  "getToken m nowMs fetch w =
     (case store_get (tokenStore m) of
        None \<Rightarrow> (Inr None, m, w)
      | Some token \<Rightarrow>
          if isTokenExpired token 300 nowMs then
            (let refreshed = refreshAccessToken (refreshToken token) (clientId m) (clientSecret m) fetch w
             in case fst refreshed of
                  Inr newToken \<Rightarrow>
                    (let refreshedToken =
                           newToken\<lparr>scope := scope token,
                                    athleteId := js_or (athleteId token) (athleteId newToken)\<rparr>
                     in (Inr (Some refreshedToken),
                         m\<lparr>tokenStore := store_set refreshedToken (tokenStore m)\<rparr>,
                         snd refreshed))
                | Inl error \<Rightarrow>
                    (Inl error, m\<lparr>tokenStore := store_clear (tokenStore m)\<rparr>, snd refreshed))
          else (Inr (Some token), m, w))"


section \<open>Sample values\<close>

text \<open>An attempt function that replays a list of outcomes, and an error with a given status code.\<close>

definition scripted :: "('a, (thrown + 'a) list) attempt" where
  "scripted w = (case w of [] \<Rightarrow> (Inl Undefined, []) | x # xs \<Rightarrow> (x, xs))"

definition status_error :: "int \<Rightarrow> thrown" where
  "status_error c = Strava (new_StravaError StravaError ''failed'' (Some c) NoPayload)"

text \<open>A factory that numbers the pending results it creates; the world counts them.\<close>

definition counting_factory :: "nat \<Rightarrow> nat \<times> nat" where
  "counting_factory n = (n, Suc n)"

definition sample_token :: TokenData where
  "sample_token =
     \<lparr>accessToken = ''old-access'', refreshToken = ''old-refresh'', expiresAt = 1000,
      tokenType = ''Bearer'', scope = Some ''read'', athleteId = Some 7\<rparr>"


definition sample_manager :: "TokenData option \<Rightarrow> OAuthManager" where
  "sample_manager st = \<lparr>tokenStore = st, clientId = ''id'', clientSecret = ''secret''\<rparr>"


definition refusing_fetch :: "(string \<times> string) list \<Rightarrow> nat \<Rightarrow> token_fetch \<times> nat" where
  "refusing_fetch params n = (Refused 400 ''Bad Request'' None, Suc n)"

text \<open>An error response without a readable body, and network calls that answer with it or abort.\<close>

definition sample_response :: "int \<Rightarrow> Response" where
  "sample_response sc =
     \<lparr>status = sc, statusText = ''Error'', headers = (\<lambda>h. None),
      json_body = Inl (JsError ''SyntaxError'' ''Unexpected token''), text_body = None\<rparr>"

definition responding_fetch :: "int \<Rightarrow> nat \<Rightarrow> fetch_outcome \<times> nat" where
  "responding_fetch sc n = (Resolved (sample_response sc), Suc n)"

definition aborting_fetch :: "nat \<Rightarrow> fetch_outcome \<times> nat" where
  "aborting_fetch n = (Rejected (JsError ''AbortError'' ''The operation was aborted''), Suc n)"

text \<open>
  A response whose headers arrived before the timeout fired and whose body did not: both
  reads of the body reject. And a network call that answers with it.
\<close>

definition cut_off_response :: "int \<Rightarrow> string \<Rightarrow> Response" where
  "cut_off_response sc st =
     \<lparr>status = sc, statusText = st, headers = (\<lambda>h. None),
      json_body = Inl (JsError ''AbortError'' ''The operation was aborted''), text_body = None\<rparr>"

definition cut_off_fetch :: "int \<Rightarrow> string \<Rightarrow> nat \<Rightarrow> fetch_outcome \<times> nat" where
  "cut_off_fetch sc st n = (Resolved (cut_off_response sc st), Suc n)"

text \<open>
  A power for the samples, to stand for the engine's \<open>Math.pow\<close> there: 1 for the exponent
  0, the correctly rounded power for a finite base and an exponent that is a natural
  number. The samples use no other arguments; it is \<open>NaN\<close> on them.
\<close>

definition integer_pow :: "double \<Rightarrow> double \<Rightarrow> double" where
  "integer_pow b e =
     (case (b, e) of
        (_, Finite k) \<Rightarrow>
          if k = 0 then Finite 1
          else (case b of
                  Finite x \<Rightarrow> if 0 \<le> k \<and> k = of_int \<lfloor>k\<rfloor> then to_double (x ^ nat \<lfloor>k\<rfloor>)
                              else NotANumber
                | _ \<Rightarrow> NotANumber)
      | _ \<Rightarrow> NotANumber)"

text \<open>The options object \<open>{}\<close>; the samples set single properties of it.\<close>

definition no_options :: RetryOptions where
  "no_options =
     \<lparr>maxAttempts_opt = Omitted, initialDelay_opt = Omitted, maxDelay_opt = Omitted,
      backoffFactor_opt = Omitted, retryableStatusCodes_opt = Omitted\<rparr>"

text \<open>An attempt function that always fails with status 503; the world counts the invocations.\<close>

definition failing :: "(unit, nat) attempt" where
  "failing n = (Inl (status_error 503), Suc n)"


section \<open>Double arithmetic\<close>

declare string_of_nat.simps [simp del]
declare withRetry_loop.simps [simp del]

lemma round_even_of_int [simp]: "round_even (of_int k) = k"
  by (simp add: round_even_def)

lemma round_even_floor: "\<lfloor>x\<rfloor> \<le> round_even x" "round_even x \<le> \<lfloor>x\<rfloor> + 1"
  by (simp_all add: round_even_def Let_def)

lemma round_even_ge:
  assumes "of_int k \<le> x"
  shows "k \<le> round_even x"
proof -
  from assms have "k \<le> \<lfloor>x\<rfloor>" by (simp add: le_floor_iff)
  with round_even_floor(1)[of x] show ?thesis by linarith
qed

lemma round_even_le:
  assumes "x \<le> of_int k"
  shows "round_even x \<le> k"
proof (cases "x = of_int \<lfloor>x\<rfloor>")
  case True
  then have "round_even x = round_even (of_int \<lfloor>x\<rfloor>)" by simp
  then have "round_even x = \<lfloor>x\<rfloor>" by (simp only: round_even_of_int)
  moreover have "\<lfloor>x\<rfloor> \<le> k" using floor_mono[OF assms] by simp
  ultimately show ?thesis by simp
next
  case False
  have "of_int \<lfloor>x\<rfloor> < x"
    by (rule le_neq_trans[OF of_int_floor_le False[symmetric]])
  from this assms have "(of_int \<lfloor>x\<rfloor> :: real) < of_int k" by (rule less_le_trans)
  then have "\<lfloor>x\<rfloor> < k" by (simp only: of_int_less_iff)
  with round_even_floor(2)[of x] show ?thesis by linarith
qed

lemma round_even_mono:
  assumes "x \<le> y"
  shows "round_even x \<le> round_even y"
proof (cases "\<lfloor>x\<rfloor> = \<lfloor>y\<rfloor>")
  case True
  with assms show ?thesis
    by (auto simp add: round_even_def Let_def)
next
  case False
  with assms have "\<lfloor>x\<rfloor> < \<lfloor>y\<rfloor>"
    by (simp add: floor_mono order.strict_iff_order)
  with round_even_floor(2)[of x] round_even_floor(1)[of y] show ?thesis by linarith
qed

lemma powr2_int: "2 powr (of_int k) = (power_int 2 k :: real)"
  by (rule powr_real_of_int') simp_all

lemma pow2_floor_log_le:
  assumes "0 < x"
  shows "power_int 2 \<lfloor>log 2 x\<rfloor> \<le> x"
proof -
  have "2 powr (of_int \<lfloor>log 2 x\<rfloor>) \<le> 2 powr (log 2 x)"
    by (rule powr_mono) simp_all
  also have "2 powr (log 2 x) = x"
    using assms by simp
  finally show ?thesis by (simp only: powr2_int)
qed

lemma less_pow2_floor_log:
  assumes "0 < x"
  shows "x < power_int 2 (\<lfloor>log 2 x\<rfloor> + 1)"
proof -
  have "log 2 x < of_int (\<lfloor>log 2 x\<rfloor> + 1)"
    by simp
  then have "2 powr (log 2 x) < 2 powr (of_int (\<lfloor>log 2 x\<rfloor> + 1))"
    by (rule powr_less_mono) simp
  moreover have "2 powr (log 2 x) = x"
    using assms by simp
  ultimately show ?thesis by (simp only: powr2_int)
qed

lemma floor_log2_eq:
  assumes "power_int 2 k \<le> x" "x < power_int 2 (k + 1)"
  shows "\<lfloor>log 2 x\<rfloor> = k"
proof -
  have pos: "0 < x"
    using assms(1) by (rule less_le_trans[rotated]) simp
  have "2 powr of_int k \<le> x"
    using assms(1) by (simp only: powr2_int)
  then have lo: "of_int k \<le> log 2 x"
    using pos by (simp only: le_log_iff[of 2 x, simplified])
  have "x < 2 powr of_int (k + 1)"
    using assms(2) by (simp only: powr2_int)
  then have "log 2 x < of_int (k + 1)"
    using pos by (simp only: log_less_iff[of 2 x, simplified])
  then have hi: "log 2 x < of_int k + 1" by simp
  from lo hi show ?thesis by (rule floor_unique)
qed

lemma floor_log2_mono:
  assumes "0 < x" "x \<le> y"
  shows "\<lfloor>log 2 x\<rfloor> \<le> \<lfloor>log 2 y\<rfloor>"
  using assms by (intro floor_mono) simp


lemma ulp_pos: "0 < ulp x"
  by (simp add: ulp_def)

lemma ulp_times: "power_int 2 (expo x + k) = of_int (2 ^ nat (k + 52)) * ulp x" if "- 52 \<le> k"
proof -
  have "power_int (2::real) (expo x + k) = power_int 2 ((k + 52) + (expo x - 52))"
    by (simp add: algebra_simps)
  also have "\<dots> = power_int 2 (k + 52) * power_int 2 (expo x - 52)"
    by (rule power_int_add) simp
  also have "power_int (2::real) (k + 52) = 2 ^ nat (k + 52)"
    using that by (simp add: power_int_def)
  finally show ?thesis by (simp add: ulp_def)
qed

lemma nearest_nonneg:
  assumes "0 \<le> x"
  shows "0 \<le> nearest x"
proof (cases "x = 0")
  case True
  then show ?thesis by (simp add: nearest_def)
next
  case False
  have "of_int 0 \<le> x / ulp x"
    using assms ulp_pos[of x] by simp
  then have "0 \<le> round_even (x / ulp x)" by (rule round_even_ge)
  then show ?thesis using False ulp_pos[of x] by (simp add: nearest_def)
qed

lemma expo_mono:
  assumes "0 < x" "x \<le> y"
  shows "expo x \<le> expo y"
  using floor_log2_mono[OF assms] assms by (simp add: expo_def)

lemma less_pow2_expo:
  assumes "0 < x"
  shows "x < power_int 2 (expo x + 1)"
proof -
  have "x < power_int 2 (\<lfloor>log 2 x\<rfloor> + 1)" by (rule less_pow2_floor_log[OF assms])
  also have "\<dots> \<le> power_int 2 (expo x + 1)"
    using assms by (intro power_int_increasing) (simp_all add: expo_def)
  finally show ?thesis .
qed

lemma nearest_le_next_pow2:
  assumes "0 < x"
  shows "nearest x \<le> power_int 2 (expo x + 1)"
proof -
  have "x \<le> power_int 2 (expo x + 1)"
    using less_pow2_expo[OF assms] by simp
  also have "\<dots> = of_int (2 ^ nat (1 + 52)) * ulp x"
    by (rule ulp_times) simp
  finally have "x / ulp x \<le> of_int (2 ^ nat (1 + 52))"
    using ulp_pos[of x] by (simp add: pos_divide_le_eq)
  then have "round_even (x / ulp x) \<le> 2 ^ nat (1 + 52)" by (rule round_even_le)
  then have "of_int (round_even (x / ulp x)) * ulp x \<le> of_int (2 ^ nat (1 + 52)) * ulp x"
    using ulp_pos[of x] by (intro mult_right_mono) (simp_all only: of_int_le_iff less_imp_le)
  then show ?thesis
    using assms ulp_times[of 1 x] by (simp add: nearest_def)
qed

lemma pow2_le_nearest:
  assumes "0 < x" "- 1022 < expo x"
  shows "power_int 2 (expo x) \<le> nearest x"
proof -
  from assms(2) have e: "expo x = \<lfloor>log 2 x\<rfloor>"
    using assms(1) by (simp add: expo_def max_def split: if_splits)
  have "power_int 2 (expo x + 0) \<le> x"
    using pow2_floor_log_le[OF assms(1)] e by simp
  moreover have "power_int 2 (expo x + 0) = of_int (2 ^ nat (0 + 52)) * ulp x"
    by (rule ulp_times) simp
  ultimately have "of_int (2 ^ nat (0 + 52)) \<le> x / ulp x"
    using ulp_pos[of x] by (simp add: pos_le_divide_eq)
  then have "2 ^ nat (0 + 52) \<le> round_even (x / ulp x)" by (rule round_even_ge)
  then have "of_int (2 ^ nat (0 + 52)) * ulp x \<le> of_int (round_even (x / ulp x)) * ulp x"
    using ulp_pos[of x] by (intro mult_right_mono) (simp_all only: of_int_le_iff less_imp_le)
  then show ?thesis
    using assms ulp_times[of 0 x] by (simp add: nearest_def)
qed

lemma nearest_mono:
  assumes "0 \<le> x" "x \<le> y"
  shows "nearest x \<le> nearest y"
proof (cases "x = 0")
  case True
  with assms nearest_nonneg[of y] show ?thesis by (simp add: nearest_def)
next
  case False
  with assms have pos: "0 < x" "0 < y" by simp_all
  show ?thesis
  proof (cases "expo x = expo y")
    case True
    then have u: "ulp x = ulp y" by (simp add: ulp_def)
    have "x / ulp y \<le> y / ulp y"
      using assms(2) ulp_pos[of y] by (simp add: divide_right_mono)
    then have "round_even (x / ulp y) \<le> round_even (y / ulp y)" by (rule round_even_mono)
    then have "of_int (round_even (x / ulp y)) * ulp y \<le> of_int (round_even (y / ulp y)) * ulp y"
      using ulp_pos[of y] by (intro mult_right_mono) (simp_all only: of_int_le_iff less_imp_le)
    then show ?thesis using pos u by (simp add: nearest_def)
  next
    case False
    with expo_mono[OF pos(1) assms(2)] have lt: "expo x < expo y" by simp
    have "- 1022 \<le> expo x" by (simp add: expo_def)
    with lt have "- 1022 < expo y" by simp
    from pow2_le_nearest[OF pos(2) this] have "power_int 2 (expo y) \<le> nearest y" .
    moreover have "power_int (2::real) (expo x + 1) \<le> power_int 2 (expo y)"
      using lt by (intro power_int_increasing) simp_all
    moreover note nearest_le_next_pow2[OF pos(1)]
    ultimately show ?thesis by linarith
  qed
qed


lemma nearest_multiple:
  assumes "x = of_int k * ulp x"
  shows "nearest x = x"
proof (cases "x = 0")
  case True
  then show ?thesis by (simp add: nearest_def)
next
  case False
  have "x / ulp x = of_int k * ulp x / ulp x"
    using assms by (rule arg_cong[where f = "\<lambda>t. t / ulp x"])
  also have "\<dots> = of_int k"
    using ulp_pos[of x] by simp
  finally have "round_even (x / ulp x) = k" by (simp only: round_even_of_int)
  with False assms show ?thesis by (simp add: nearest_def)
qed

lemma nearest_of_int:
  assumes "\<bar>k\<bar> < 2 ^ 53"
  shows "nearest (of_int k) = of_int k"
proof (cases "k = 0")
  case True
  then show ?thesis by (simp add: nearest_def)
next
  case False
  define x :: real where "x = of_int k"
  have "1 \<le> \<bar>k\<bar>" using False by simp
  then have "(of_int 1 :: real) \<le> of_int \<bar>k\<bar>" by (simp only: of_int_le_iff)
  moreover have "(of_int \<bar>k\<bar> :: real) < of_int (2 ^ 53)"
    using assms by (simp only: of_int_less_iff)
  ultimately have ax: "1 \<le> \<bar>x\<bar>" "\<bar>x\<bar> < 2 ^ 53"
    by (simp_all add: x_def)
  have "of_int 0 \<le> log 2 \<bar>x\<bar>" using ax(1) by simp
  then have lo: "0 \<le> \<lfloor>log 2 \<bar>x\<bar>\<rfloor>" by (simp only: le_floor_iff)
  have "\<bar>x\<bar> < 2 powr of_int 53" using ax(2) by (simp only: powr2_int) simp
  then have "log 2 \<bar>x\<bar> < of_int 53"
    using ax(1) by (simp only: log_less_iff[of 2 "\<bar>x\<bar>", simplified])
  then have hi: "\<lfloor>log 2 \<bar>x\<bar>\<rfloor> < 53" by (simp only: floor_less_iff)
  define n where "n = nat (52 - expo x)"
  from lo hi have e: "expo x + int n = 52" "0 \<le> expo x"
    by (simp_all add: expo_def n_def)
  have "power_int (2::real) (expo x - 52 + int n) = power_int 2 (expo x - 52) * power_int 2 (int n)"
    by (rule power_int_add) simp
  moreover have "expo x - 52 + int n = 0" using e(1) by simp
  ultimately have u: "ulp x * 2 ^ n = 1" by (simp add: ulp_def)
  have "x = x * (ulp x * 2 ^ n)" by (simp only: u mult_1_right)
  also have "\<dots> = of_int (k * 2 ^ n) * ulp x" by (simp add: x_def)
  finally have "x = of_int (k * 2 ^ n) * ulp x" .
  then have "nearest x = x" by (rule nearest_multiple)
  then show ?thesis by (simp only: x_def)
qed


lemma to_double_of_int:
  assumes "\<bar>k\<bar> < 2 ^ 53"
  shows "to_double (of_int k) = Finite (of_int k)"
proof -
  have "(of_int \<bar>k\<bar> :: real) < of_int (2 ^ 53)"
    using assms by (simp only: of_int_less_iff)
  then have "\<bar>of_int k :: real\<bar> < 2 ^ 53" by simp
  moreover have "(2::real) ^ 53 < 2 ^ 1024" by simp
  ultimately have "\<bar>of_int k :: real\<bar> < 2 ^ 1024" by (rule less_trans)
  then show ?thesis
    by (simp add: to_double_def nearest_of_int[OF assms] abs_less_iff)
qed

lemma to_double_numeral:
  "numeral n < (2::int) ^ 53 \<Longrightarrow> to_double (numeral n) = Finite (numeral n)"
  "numeral n < (2::int) ^ 53 \<Longrightarrow> to_double (- numeral n) = Finite (- numeral n)"
  "to_double 0 = Finite 0" "to_double 1 = Finite 1"
  using to_double_of_int[of "numeral n"] to_double_of_int[of "- numeral n"]
    to_double_of_int[of 0] to_double_of_int[of 1]
  by simp_all

lemma to_double_not_NaN [simp]: "to_double x \<noteq> NotANumber"
  by (simp add: to_double_def Let_def)

lemma to_double_mono:
  assumes "0 \<le> x" "x \<le> y"
  shows "double_le (to_double x) (to_double y)"
  using nearest_mono[OF assms] nearest_nonneg[OF assms(1)]
  by (simp add: to_double_def Let_def)

text \<open>From \<open>2\<^sup>1\<^sup>0\<^sup>2\<^sup>4\<close> on, rounding overflows to infinity.\<close>

lemma nearest_pow2:
  assumes "52 \<le> n"
  shows "nearest (2 ^ n) = 2 ^ n"
proof -
  have e: "expo (2 ^ n) = int n"
    by (simp add: expo_def)
  have u: "ulp (2 ^ n) = 2 ^ (n - 52)"
    using assms by (simp add: ulp_def e power_int_def nat_diff_distrib)
  have "(2::real) ^ n = 2 ^ (52 + (n - 52))" using assms by simp
  also have "\<dots> = 2 ^ 52 * 2 ^ (n - 52)" by (simp only: power_add)
  also have "\<dots> = of_int (2 ^ 52) * ulp (2 ^ n)" by (simp only: u) simp
  finally show ?thesis by (rule nearest_multiple)
qed

lemma to_double_overflow:
  assumes "2 ^ 1024 \<le> x"
  shows "to_double x = PlusInfinity"
proof -
  define n :: nat where "n = 1024"
  have "(0::real) \<le> 2 ^ n" by simp
  moreover have "2 ^ n \<le> x" using assms by (simp only: n_def)
  ultimately have "nearest (2 ^ n) \<le> nearest x" by (rule nearest_mono)
  moreover have "52 \<le> n" by (simp add: n_def)
  ultimately have "2 ^ n \<le> nearest x" by (simp only: nearest_pow2)
  then have "2 ^ 1024 \<le> nearest x" by (simp only: n_def)
  then show ?thesis
    by (simp only: to_double_def Let_def if_True)
qed

lemma double_le_refl: "x \<noteq> NotANumber \<Longrightarrow> double_le x x"
  by (cases x) simp_all


lemma Math_min_mono:
  assumes "double_le x y" "z \<noteq> NotANumber"
  shows "double_le (Math_min x z) (Math_min y z)"
  using assms by (cases x; cases y; cases z) (auto simp add: Math_min_def)

lemma mul_mono:
  assumes "0 < a" "double_le (Finite 0) p" "double_le p q"
  shows "double_le (mul (Finite a) p) (mul (Finite a) q)"
proof (cases p)
  case (Finite b)
  with assms(2) have b: "0 \<le> b" by simp
  show ?thesis
  proof (cases q)
    case (Finite c)
    with assms(3) \<open>p = Finite b\<close> have "b \<le> c" by simp
    with assms(1) b have "0 \<le> a * b" "a * b \<le> a * c" by simp_all
    then show ?thesis
      using \<open>p = Finite b\<close> Finite by (simp add: mul_def to_double_mono)
  next
    case PlusInfinity
    have "double_le (to_double (a * b)) PlusInfinity"
      by (cases "to_double (a * b)") simp_all
    then show ?thesis
      using \<open>p = Finite b\<close> PlusInfinity assms(1) by (simp add: mul_def negative_def)
  qed (use assms(3) \<open>p = Finite b\<close> in simp_all)
next
  case PlusInfinity
  with assms(3) have "q = PlusInfinity" by (cases q) simp_all
  with PlusInfinity assms(1) show ?thesis by (simp add: mul_def negative_def)
qed (use assms(2) in simp_all)

lemma mul_mono_nonneg:
  assumes "double_le (Finite 0) d" "double_le (Finite 1) p" "double_le p q"
    and "d = Finite 0 \<longrightarrow> q \<noteq> PlusInfinity"
  shows "double_le (mul d p) (mul d q)"
proof -
  from assms(2) have p0: "double_le (Finite 0) p" by (cases p) simp_all
  consider a where "d = Finite a" "0 < a" | "d = Finite 0" | "d = PlusInfinity"
    using assms(1) by (cases d) (auto simp add: less_le)
  then show ?thesis
  proof cases
    case 1
    with mul_mono[OF 1(2) p0 assms(3)] show ?thesis by simp
  next
    case 2
    with assms(4) have "q \<noteq> PlusInfinity" by simp
    with assms(2,3) obtain b c where "p = Finite b" "q = Finite c"
      by (cases p; cases q) simp_all
    with 2 show ?thesis by (simp add: mul_def to_double_numeral)
  next
    case 3
    from assms(2,3) have "mul PlusInfinity p = PlusInfinity" "mul PlusInfinity q = PlusInfinity"
      by (cases p; cases q; simp add: mul_def negative_def)+
    with 3 show ?thesis by simp
  qed
qed

section \<open>Retry: delays\<close>


lemma calculateDelay_backoff:
  "calculateDelay pow n c None =
     Math_min (mul (num (initialDelay c)) (pow (num (backoffFactor c)) (to_double (of_int (n - 1)))))
       (num (maxDelay c))"
  by (simp add: calculateDelay_def)

text \<open>
  A zero initial delay does not stay zero once the power overflows: zero times infinity
  is \<open>NaN\<close>, and so is the delay.
\<close>

lemma calculateDelay_zero_times_infinity:
  assumes "initialDelay c = Some (Finite 0)"
    and "pow (num (backoffFactor c)) (to_double (of_int (n - 1))) = PlusInfinity"
  shows "calculateDelay pow n c None = NotANumber"
  using assms by (simp add: calculateDelay_def num_def mul_def Math_min_def)

lemma integer_pow_overflow:
  "integer_pow (Finite 2) (to_double 1099) = PlusInfinity"
proof -
  have "(2::real) ^ 1024 \<le> 2 ^ 1099" by (rule power_increasing) simp_all
  then have "to_double (2 ^ 1099) = PlusInfinity" by (rule to_double_overflow)
  moreover have "to_double 1099 = Finite 1099"
    by (simp add: to_double_numeral)
  moreover have "nat \<lfloor>1099::real\<rfloor> = 1099" by simp
  ultimately show ?thesis
    by (simp add: integer_pow_def del: power_numeral)
qed

lemma calculateDelay_zero_initialDelay:
  "calculateDelay integer_pow 1100
      (mergeConfig (Some (no_options\<lparr>initialDelay_opt := Given (Finite 0)\<rparr>))) None
     = NotANumber"
  by (rule calculateDelay_zero_times_infinity)
    (simp_all add: mergeConfig_def spread_def DEFAULT_RETRY_CONFIG_def no_options_def num_def
      integer_pow_overflow)

text \<open>A product that rounds: 0.1 times 3 is 0.30000000000000004, a tie that goes to the even neighbour.\<close>

lemma mul_rounds:
  "mul (Finite (3602879701896397 / 2 ^ 55)) (Finite 3) = Finite (5404319552844596 / 2 ^ 54)"
proof -
  define x :: real where "x = 3602879701896397 / 2 ^ 55 * 3"
  have "power_int 2 (- 2) \<le> x" "x < power_int 2 (- 2 + 1)"
    by (simp_all add: x_def power_int_minus)
  then have "\<lfloor>log 2 x\<rfloor> = - 2" by (rule floor_log2_eq)
  moreover have "0 < x" by (simp add: x_def)
  ultimately have u: "ulp x = 1 / 2 ^ 54"
    by (simp add: ulp_def expo_def power_int_minus_divide)
  have "x / ulp x = 10808639105689191 / 2"
    by (simp add: u) (simp add: x_def)
  moreover have "round_even (10808639105689191 / 2) = 5404319552844596"
    by (simp add: round_even_def)
  ultimately have "round_even (x / ulp x) = 5404319552844596"
    by (simp only:)
  with u \<open>0 < x\<close> have "nearest x = 5404319552844596 / 2 ^ 54"
    by (simp add: nearest_def)
  then show ?thesis
    by (simp add: mul_def to_double_def x_def)
qed

text \<open>
  Between two attempts the delay without a hint does not decrease when the initial delay
  is at least 0, the cap is not \<open>NaN\<close>, the power at the first attempt is at least 1 and
  at most the power at the second, and the product is not zero times infinity.
\<close>

lemma calculateDelay_mono:
  assumes "initialDelay c = Some d" "double_le (Finite 0) d" "maxDelay c = Some M" "M \<noteq> NotANumber"
    and "double_le (Finite 1) (pow (num (backoffFactor c)) (to_double (of_int (n - 1))))"
    and "double_le (pow (num (backoffFactor c)) (to_double (of_int (n - 1))))
                   (pow (num (backoffFactor c)) (to_double (of_int (n' - 1))))"
    and "d = Finite 0 \<longrightarrow> pow (num (backoffFactor c)) (to_double (of_int (n' - 1))) \<noteq> PlusInfinity"
  shows "double_le (calculateDelay pow n c None) (calculateDelay pow n' c None)"
proof -
  define p where "p = pow (num (backoffFactor c)) (to_double (of_int (n - 1)))"
  define q where "q = pow (num (backoffFactor c)) (to_double (of_int (n' - 1)))"
  from assms have h: "double_le (Finite 1) p" "double_le p q" "d = Finite 0 \<longrightarrow> q \<noteq> PlusInfinity"
    by (simp_all add: p_def q_def)
  from mul_mono_nonneg[OF assms(2) h] have "double_le (mul d p) (mul d q)" .
  then have "double_le (Math_min (mul d p) M) (Math_min (mul d q) M)"
    using assms(4) by (rule Math_min_mono)
  then show ?thesis
    by (simp add: calculateDelay_backoff assms(1,3) num_def p_def q_def)
qed

text \<open>
  A correctly rounded power meets both conditions for every finite factor of at least 1
  and every attempt number from 1 up to \<open>2\<^sup>5\<^sup>3\<close>: there the delay does not decrease.
\<close>

lemma integer_pow_mono:
  assumes "1 \<le> b" "0 \<le> k" "k \<le> k'" "k' < 2 ^ 53"
  shows "double_le (Finite 1) (integer_pow (Finite b) (to_double (of_int k)))"
    and "double_le (integer_pow (Finite b) (to_double (of_int k)))
                   (integer_pow (Finite b) (to_double (of_int k')))"
proof -
  have val: "integer_pow (Finite b) (to_double (of_int j)) = to_double (b ^ nat j)"
    if "0 \<le> j" "j < 2 ^ 53" for j
  proof -
    from that have "\<bar>j\<bar> < 2 ^ 53" by simp
    then have "to_double (of_int j) = Finite (of_int j)" by (rule to_double_of_int)
    with that(1) show ?thesis
      by (simp add: integer_pow_def to_double_numeral)
  qed
  have one: "(1::real) \<le> b ^ nat k" using assms(1) by (rule one_le_power)
  have le: "b ^ nat k \<le> b ^ nat k'"
    using assms(1,3) by (intro power_increasing) simp_all
  from assms have k: "0 \<le> k" "k < 2 ^ 53" and k': "0 \<le> k'" "k' < 2 ^ 53" by simp_all
  have "double_le (to_double 1) (to_double (b ^ nat k))"
    using one by (intro to_double_mono) simp_all
  then show "double_le (Finite 1) (integer_pow (Finite b) (to_double (of_int k)))"
    by (simp add: val[OF k] to_double_numeral)
  have "double_le (to_double (b ^ nat k)) (to_double (b ^ nat k'))"
    using one le by (intro to_double_mono) simp_all
  then show "double_le (integer_pow (Finite b) (to_double (of_int k)))
                   (integer_pow (Finite b) (to_double (of_int k')))"
    by (simp add: val[OF k] val[OF k'])
qed

lemma calculateDelay_mono_rounded_pow:
  assumes "1 \<le> n" "n \<le> n'" "n' \<le> 2 ^ 53"
    and "initialDelay c = Some (Finite a)" "0 < a" "maxDelay c = Some M" "M \<noteq> NotANumber"
    and "backoffFactor c = Some (Finite b)" "1 \<le> b"
  shows "double_le (calculateDelay integer_pow n c None) (calculateDelay integer_pow n' c None)"
proof -
  from assms(1-3) have k: "0 \<le> n - 1" "n - 1 \<le> n' - 1" "n' - 1 < 2 ^ 53" by simp_all
  from integer_pow_mono[OF assms(9) k] assms(8)
  have "double_le (Finite 1) (integer_pow (num (backoffFactor c)) (to_double (of_int (n - 1))))"
    "double_le (integer_pow (num (backoffFactor c)) (to_double (of_int (n - 1))))
               (integer_pow (num (backoffFactor c)) (to_double (of_int (n' - 1))))"
    by (simp_all add: num_def)
  moreover from assms(5) have "double_le (Finite 0) (Finite a)" "Finite a = Finite 0 \<longrightarrow>
      integer_pow (num (backoffFactor c)) (to_double (of_int (n' - 1))) \<noteq> PlusInfinity"
    by simp_all
  ultimately show ?thesis
    using assms(4,6,7) by (intro calculateDelay_mono[where d = "Finite a" and M = M]) 
qed




section \<open>Retry: the attempt loop\<close>

lemma spy_apply: "spy fn (w, h) = (fst (fn w), (snd (fn w), h @ [fst (fn w)]))"
  by (simp add: spy_def)

lemma withRetry_loop_exit:
  "\<not> counter_le a (maxAttempts rc) \<Longrightarrow> withRetry_loop pow fn rc g a le s = (Inl le, s)"
  by (simp add: withRetry_loop.simps)

lemma withRetry_loop_step:
  "counter_le a (maxAttempts rc) \<Longrightarrow>
   withRetry_loop pow fn rc g a le (sl, w) =
     (case fst (fn w) of
        Inr v \<Rightarrow> (Inr v, sl, snd (fn w))
      | Inl e \<Rightarrow>
          if counter_ge a (maxAttempts rc) then (Inl e, sl, snd (fn w))
          else (case isRetryable (statusCodeOf e) rc of
                  Inl t \<Rightarrow> (Inl t, sl, snd (fn w))
                | Inr b \<Rightarrow>
                    if \<not> b then (Inl e, sl, snd (fn w))
                    else withRetry_loop pow fn rc g (a + 1) e
                           (sl @ [calculateDelay pow a rc (case g of Some g' \<Rightarrow> g' e | None \<Rightarrow> None)],
                            snd (fn w))))"
  by (subst withRetry_loop.simps) (simp add: sleep_def Let_def split: sum.splits bool.splits)

lemma counter_le_Some: "counter_le a (Some m) = (a \<le> m)"
  and counter_ge_Some: "counter_ge a (Some m) = (m \<le> a)"
  and counter_le_None: "counter_le a None = False"
  by (simp_all add: counter_le_def counter_ge_def)

text \<open>The configuration the loop runs with, from what the caller set.\<close>

lemma mergeConfig_maxAttempts:
  "maxAttempts (mergeConfig config) =
     (case config of
        None \<Rightarrow> Some 3
      | Some c \<Rightarrow> (case maxAttempts_opt c of
                    Omitted \<Rightarrow> Some 3 | GivenUndefined \<Rightarrow> None | Given m \<Rightarrow> Some m))"
  by (simp add: mergeConfig_def spread_def DEFAULT_RETRY_CONFIG_def split: option.splits setting.splits)



lemma withRetry_loop_all_fail:
  assumes fails: "\<forall>w. \<exists>e. fst (fn w) = Inl e \<and> isRetryable (statusCodeOf e) rc = Inr True"
    and m: "maxAttempts rc = Some m"
  shows "a \<le> m \<Longrightarrow>
    withRetry_loop pow (spy fn) rc g a le (sl, (w, h)) = (r, sl', (w', h')) \<Longrightarrow>
    int (length h') = int (length h) + (m + 1 - a) \<and> r = last h' \<and> (\<exists>e. r = Inl e)"
proof (induction "nat (m - a)" arbitrary: a le sl w h)
  case 0
  then have eq: "a = m" by simp
  from fails obtain e where e: "fst (fn w) = Inl e" by blast
  have le: "counter_le a (maxAttempts rc)" using 0(2) m by (simp add: counter_le_Some)
  note step = withRetry_loop_step[OF le, of pow "spy fn" g le sl "(w, h)",
      unfolded spy_apply fst_conv snd_conv]
  from 0(3)[unfolded step] e eq m have "h' = h @ [Inl e]" "r = Inl e"
    by (auto simp add: counter_ge_Some)
  then show ?case using eq by simp
next
  case (Suc k)
  from fails obtain e where e: "fst (fn w) = Inl e" "isRetryable (statusCodeOf e) rc = Inr True"
    by blast
  from Suc.hyps(2) have lt: "a < m" by simp
  have le: "counter_le a (maxAttempts rc)" using Suc.prems(1) m by (simp add: counter_le_Some)
  note step = withRetry_loop_step[OF le, of pow "spy fn" g le sl "(w, h)",
      unfolded spy_apply fst_conv snd_conv]
  define d where "d = calculateDelay pow a rc (case g of Some g' \<Rightarrow> g' e | None \<Rightarrow> None)"
  from Suc.prems(2) e lt m
  have run: "withRetry_loop pow (spy fn) rc g (a + 1) e (sl @ [d], (snd (fn w), h @ [Inl e]))
      = (r, sl', (w', h'))"
    by (simp add: step d_def counter_ge_Some)
  have k: "k = nat (m - (a + 1))" using Suc.hyps(2) by simp
  have le': "a + 1 \<le> m" using lt by simp
  from Suc.hyps(1)[OF k le' run] show ?case by auto
qed

text \<open>The observer changes nothing: the result, the delays and the world are those of the plain run.\<close>

lemma withRetry_loop_spy:
  "withRetry_loop pow (spy fn) rc g a le (sl, (w, h)) = (r, sl', (w', h')) \<Longrightarrow>
   withRetry_loop pow fn rc g a le (sl, w) = (r, sl', w')"
proof (induction "case maxAttempts rc of Some m \<Rightarrow> nat (m + 1 - a) | None \<Rightarrow> 0"
    arbitrary: a le sl w h)
  case 0
  then have "\<not> counter_le a (maxAttempts rc)"
    by (simp add: counter_le_def split: option.splits)
  with 0 show ?case by (simp add: withRetry_loop_exit)
next
  case (Suc k)
  then obtain m where m: "maxAttempts rc = Some m" "a \<le> m" "Suc k = nat (m + 1 - a)"
    by (cases "maxAttempts rc") auto
  then have le: "counter_le a (maxAttempts rc)" by (simp add: counter_le_Some)
  note step = withRetry_loop_step[OF le, of pow "spy fn" g le sl "(w, h)",
      unfolded spy_apply fst_conv snd_conv]
  note plain = withRetry_loop_step[OF le, of pow fn g le sl w]
  show ?case
  proof (cases "fst (fn w)")
    case (Inr v)
    with Suc.prems have "r = Inr v" "sl' = sl" "w' = snd (fn w)"
      by (auto simp add: step)
    with Inr show ?thesis by (simp add: plain)
  next
    case (Inl e)
    consider (last) "counter_ge a (maxAttempts rc) \<or> isRetryable (statusCodeOf e) rc = Inr False"
      | (throws) t where "\<not> counter_ge a (maxAttempts rc)" "isRetryable (statusCodeOf e) rc = Inl t"
      | (again) "\<not> counter_ge a (maxAttempts rc)" "isRetryable (statusCodeOf e) rc = Inr True"
      by (cases "isRetryable (statusCodeOf e) rc") auto
    then show ?thesis
    proof cases
      case last
      with Suc.prems Inl have "r = Inl e" "sl' = sl" "w' = snd (fn w)"
        by (auto simp add: step split: if_splits)
      with Inl last show ?thesis by (auto simp add: plain)
    next
      case throws
      with Suc.prems Inl have "r = Inl t" "sl' = sl" "w' = snd (fn w)"
        by (auto simp add: step)
      with Inl throws show ?thesis by (simp add: plain)
    next
      case again
      define d where "d = calculateDelay pow a rc (case g of Some g' \<Rightarrow> g' e | None \<Rightarrow> None)"
      from again Suc.prems Inl
      have run: "withRetry_loop pow (spy fn) rc g (a + 1) e (sl @ [d], (snd (fn w), h @ [Inl e]))
          = (r, sl', (w', h'))"
        by (simp add: step d_def)
      have "k = (case maxAttempts rc of Some m \<Rightarrow> nat (m + 1 - (a + 1)) | None \<Rightarrow> 0)"
        using m by simp
      from Suc.hyps(1)[OF this run] again Inl show ?thesis
        by (simp add: plain d_def)
    qed
  qed
qed

lemma withRetry_spy:
  "withRetry pow (spy fn) config g (w, []) = (r, sl, (w', h)) \<Longrightarrow>
   withRetry pow fn config g w = (r, sl, w')"
  unfolding withRetry_def by (rule withRetry_loop_spy)

text \<open>The facts that evaluate a run of \<open>withRetry\<close> on sample values.\<close>

lemmas run_simps =
  withRetry_def mergeConfig_def spread_def DEFAULT_RETRY_CONFIG_def no_options_def
  withRetry_loop_step withRetry_loop_exit counter_le_def counter_ge_def spy_apply
  scripted_def status_error_def new_StravaError_def isRetryable_def
  calculateDelay_def num_def integer_pow_def mul_def Math_min_def to_double_numeral

text \<open>
  A run under the default configuration: two failures with status 503, then a success,
  give the delays 1000 ms and 2000 ms and then the value.
\<close>

lemma withRetry_two_failures_then_success:
  "withRetry integer_pow scripted None (Some request_getRetryAfter)
      [Inl (status_error 503), Inl (status_error 503), Inr (42::nat)]
     = (Inr 42, [Finite 1000, Finite 2000], [])"
  by (simp add: run_simps request_getRetryAfter_def)

text \<open>With \<open>maxAttempts\<close> set to \<open>undefined\<close> the loop test is false at once: no attempt is made.\<close>

lemma withRetry_undefined_maxAttempts:
  assumes "maxAttempts (mergeConfig config) = None"
  shows "withRetry pow (spy fn) config g (w, []) = (Inl Undefined, [], (w, []))"
  using assms by (simp add: withRetry_def withRetry_loop_exit counter_le_None)




text \<open>
  C4, as stated, fails: with \<open>maxAttempts\<close> set to -1 an attempt function that always fails
  with a retryable error is not invoked at all, and \<open>withRetry\<close> rejects with \<open>undefined\<close>,
  which is the error of no attempt.
\<close>

theorem withRetry_negative_maxAttempts:
  "withRetry integer_pow (spy failing) (Some (no_options\<lparr>maxAttempts_opt := Given (- 1)\<rparr>)) None (0, [])
     = (Inl Undefined, [], (0, []))
   \<and> maxAttempts (mergeConfig (Some (no_options\<lparr>maxAttempts_opt := Given (- 1)\<rparr>))) = Some (- 1)
   \<and> (\<forall>w. fst (failing w) = Inl (status_error 503))
   \<and> isRetryable (statusCodeOf (status_error 503))
        (mergeConfig (Some (no_options\<lparr>maxAttempts_opt := Given (- 1)\<rparr>))) = Inr True
   \<and> int (length ([] :: (thrown + unit) list)) \<noteq> - 1"
  by (simp add: run_simps failing_def)

text \<open>
  C4 (amended): for every retry configuration whose \<open>maxAttempts\<close> is an integer of at
  least 1 (the caller's, or 3 when the caller gives none): when every invocation of the
  attempt function fails with a retryable error, \<open>withRetry\<close> invokes it exactly
  \<open>maxAttempts\<close> times and then rejects with the error of the last invocation.
\<close>

theorem withRetry_exhaustion:
  assumes fails: "\<forall>w. \<exists>e. fst (fn w) = Inl e
                    \<and> isRetryable (statusCodeOf e) (mergeConfig config) = Inr True"
    and m: "maxAttempts (mergeConfig config) = Some m" "1 \<le> m"
    and run: "withRetry pow (spy fn) config g (w, []) = (r, sl, (w', h))"
  shows "int (length h) = m \<and> r = last h \<and> (\<exists>e. r = Inl e)
    \<and> Some m =
        (case config of
           None \<Rightarrow> Some 3
         | Some opts \<Rightarrow> (case maxAttempts_opt opts of
                          Omitted \<Rightarrow> Some 3 | GivenUndefined \<Rightarrow> None | Given k \<Rightarrow> Some k))"
proof -
  from withRetry_loop_all_fail[OF fails m(1) m(2) run[unfolded withRetry_def]]
  have main: "int (length h) = m" "r = last h" "\<exists>e. r = Inl e"
    by auto
  with m(1) show ?thesis
    by (simp add: mergeConfig_maxAttempts)
qed

theorem withRetry_exhaustion_witness:
  "withRetry integer_pow (spy failing) (Some (no_options\<lparr>maxAttempts_opt := Given 2\<rparr>)) None (0, [])
     = (Inl (status_error 503), [Finite 1000],
        (2, [Inl (status_error 503), Inl (status_error 503)]))
   \<and> maxAttempts (mergeConfig (Some (no_options\<lparr>maxAttempts_opt := Given 2\<rparr>))) = Some 2
   \<and> int (length [Inl (status_error 503), Inl (status_error 503) :: thrown + unit]) = 2"
proof -
  have fails: "\<forall>w. \<exists>e. fst (failing w) = Inl e
      \<and> isRetryable (statusCodeOf e) (mergeConfig (Some (no_options\<lparr>maxAttempts_opt := Given 2\<rparr>)))
          = Inr True"
    by (simp add: run_simps failing_def)
  have m: "maxAttempts (mergeConfig (Some (no_options\<lparr>maxAttempts_opt := Given 2\<rparr>))) = Some 2"
    "(1::int) \<le> 2"
    by (simp_all add: mergeConfig_def spread_def no_options_def)
  have run: "withRetry integer_pow (spy failing) (Some (no_options\<lparr>maxAttempts_opt := Given 2\<rparr>)) None (0, [])
     = (Inl (status_error 503), [Finite 1000],
        (2, [Inl (status_error 503), Inl (status_error 503)]))"
    by (simp add: run_simps failing_def)
  from withRetry_exhaustion[OF fails m run] run m(1) show ?thesis by simp
qed

text \<open>
  C10: with \<open>maxAttempts \<le> 0\<close> the attempt function is never invoked and \<open>withRetry\<close>
  rejects with \<open>undefined\<close>, the value of the unassigned \<open>lastError\<close>.
\<close>

theorem withRetry_without_attempts:
  assumes "maxAttempts (mergeConfig config) = Some m" "m \<le> 0"
  shows "withRetry pow (spy fn) config g (w, []) = (Inl Undefined, [], (w, []))"
  using assms by (simp add: withRetry_def withRetry_loop_exit counter_le_Some)

theorem withRetry_without_attempts_witness:
  "withRetry integer_pow (spy scripted) (Some (no_options\<lparr>maxAttempts_opt := Given 0\<rparr>))
      (Some request_getRetryAfter) ([Inr (42::nat)], [])
     = (Inl Undefined, [], ([Inr 42], []))"
proof -
  have "maxAttempts (mergeConfig (Some (no_options\<lparr>maxAttempts_opt := Given 0\<rparr>))) = Some 0"
    "(0::int) \<le> 0"
    by (simp_all add: mergeConfig_def spread_def no_options_def)
  from withRetry_without_attempts[OF this] show ?thesis .
qed

section \<open>Deduplication\<close>

text \<open>An entry is live at \<open>now\<close> when it is younger than the window; otherwise the call is a miss.\<close>

lemma getOrCreate_hit:
  assumes "cache d (generateKey method path query body) = Some c"
    and "now - timestamp c < windowMs d"
  shows "getOrCreate d now method path query body factory w = (promise c, d, w)"
  using assms by (simp add: getOrCreate_def Let_def)

lemma getOrCreate_miss:
  assumes "case cache d (generateKey method path query body) of
             None \<Rightarrow> True | Some c \<Rightarrow> windowMs d \<le> now - timestamp c"
  shows "getOrCreate d now method path query body factory w =
     (fst (factory w),
      d\<lparr>cache := (cache d)(generateKey method path query body
                    \<mapsto> \<lparr>promise = fst (factory w), timestamp = now\<rparr>)\<rparr>,
      snd (factory w))"
  using assms by (simp add: getOrCreate_def Let_def split: option.splits)

lemma getOrCreate_calls_hits:
  assumes "cache d (generateKey method path query body) = Some c"
    and "\<forall>x\<in>set calls. fst x - timestamp c < windowMs d"
  shows "getOrCreate_calls d method path query body calls w
     = (replicate (length calls) (promise c), d, w)"
  using assms
proof (induction calls)
  case Nil
  then show ?case by simp
next
  case (Cons x xs)
  then have "getOrCreate d (fst x) method path query body (snd x) w = (promise c, d, w)"
    by (simp add: getOrCreate_hit)
  with Cons show ?case by (simp add: Let_def)
qed

text \<open>
  The key does not depend on the order in which the query object lists its properties:
  two queries with the same bindings get the same key.
\<close>

lemma generateKey_query_order:
  assumes "distinct (map fst q)" "distinct (map fst q')" "set q = set q'"
  shows "generateKey method path (Some q) body = generateKey method path (Some q') body"
proof -
  have m: "map_of q = map_of q'"
    using assms by (simp add: map_of_inject_set)
  have "set (map fst q) = set (map fst q')"
    using assms(3) by simp
  then have "sorted_list_of_set (set (map fst q)) = sorted_list_of_set (set (map fst q'))"
    by simp
  then have k: "sort (remdups (map fst q)) = sort (remdups (map fst q'))"
    by (simp only: sorted_list_of_set_sort_remdups)
  show ?thesis
    by (simp add: generateKey_def m k)
qed

lemma generateKey_example:
  "generateKey ''GET'' ''/athlete/activities'' (Some [(''per_page'', ''30''), (''page'', ''2'')]) Falsy
     = ''GET|/athlete/activities|page=2&per_page=30''"
  by (simp add: generateKey_def)

text \<open>The periodic sweep keeps every live entry and drops every expired one.\<close>

lemma cleanup_cache:
  "cache (cleanup d now) key =
     (case cache d key of
        Some c \<Rightarrow> if now - timestamp c < windowMs d then Some c else None
      | None \<Rightarrow> None)"
  by (simp add: cleanup_def split: option.splits)

text \<open>
  C1: a first call at \<open>t0\<close> that finds no live entry invokes its factory; all later calls
  for the same \<open>(method, path, query, body)\<close> made while that entry is younger than the
  window receive the pending result of the first call, and none of their factories runs:
  the world is the one the first factory left, and the entry is the first call's.
\<close>

theorem getOrCreate_single_flight:
  assumes miss: "case cache d (generateKey method path query body) of
                   None \<Rightarrow> True | Some c \<Rightarrow> windowMs d \<le> t0 - timestamp c"
    and young: "\<forall>x\<in>set calls. fst x - t0 < windowMs d"
  shows "getOrCreate_calls d method path query body ((t0, f0) # calls) w =
     (replicate (Suc (length calls)) (fst (f0 w)),
      d\<lparr>cache := (cache d)(generateKey method path query body
                    \<mapsto> \<lparr>promise = fst (f0 w), timestamp = t0\<rparr>)\<rparr>,
      snd (f0 w))"
proof -
  define d' where "d' = d\<lparr>cache := (cache d)(generateKey method path query body
                    \<mapsto> \<lparr>promise = fst (f0 w), timestamp = t0\<rparr>)\<rparr>"
  have first: "getOrCreate d t0 method path query body f0 w = (fst (f0 w), d', snd (f0 w))"
    unfolding d'_def by (rule getOrCreate_miss[OF miss])
  have entry: "cache d' (generateKey method path query body)
      = Some \<lparr>promise = fst (f0 w), timestamp = t0\<rparr>"
    by (simp add: d'_def)
  have "getOrCreate_calls d' method path query body calls (snd (f0 w))
      = (replicate (length calls) (fst (f0 w)), d', snd (f0 w))"
    using getOrCreate_calls_hits[OF entry, of calls] young by (simp add: d'_def)
  with first show ?thesis by (simp add: Let_def d'_def)
qed

theorem getOrCreate_single_flight_witness:
  "fst (getOrCreate_calls (new_RequestDeduplicator None 1) ''GET'' ''/athlete'' None Falsy
      [(1000, counting_factory), (1000, counting_factory), (3500, counting_factory),
       (5999, counting_factory)] 0) = [0, 0, 0, 0]
   \<and> snd (snd (getOrCreate_calls (new_RequestDeduplicator None 1) ''GET'' ''/athlete'' None Falsy
      [(1000, counting_factory), (1000, counting_factory), (3500, counting_factory),
       (5999, counting_factory)] 0)) = 1"
proof -
  have miss: "case cache (new_RequestDeduplicator None 1 :: nat RequestDeduplicator)
                     (generateKey ''GET'' ''/athlete'' None Falsy) of
                None \<Rightarrow> True
              | Some c \<Rightarrow> windowMs (new_RequestDeduplicator None 1 :: nat RequestDeduplicator)
                           \<le> 1000 - timestamp c"
    by (simp add: new_RequestDeduplicator_def)
  have young: "\<forall>x\<in>set [(1000, counting_factory), (3500, counting_factory), (5999, counting_factory)].
      fst x - 1000 < windowMs (new_RequestDeduplicator None 1 :: nat RequestDeduplicator)"
    by (simp add: new_RequestDeduplicator_def)
  note run = getOrCreate_single_flight[OF miss young, of counting_factory 0]
  show ?thesis
    using run by (simp add: counting_factory_def numeral_3_eq_3 del: getOrCreate_calls.simps)
qed

text \<open>
  C9: when a call at \<open>T\<close> has created the entry (it found no live one), an identical call
  at or after \<open>T + window\<close> invokes its own factory too, so both factories run, and the
  entry becomes the second call's. In any state, an entry whose age has reached the
  window is not served: the factory runs and the entry is replaced.
\<close>

theorem getOrCreate_expiry:
  fixes d :: "'p RequestDeduplicator" and f1 f2 :: "'w \<Rightarrow> 'p \<times> 'w"
  assumes miss: "case cache d (generateKey method path query body) of
                   None \<Rightarrow> True | Some c \<Rightarrow> windowMs d \<le> T - timestamp c"
    and late: "T + windowMs d \<le> T'"
  shows "getOrCreate_calls d method path query body [(T, f1), (T', f2)] w =
       ([fst (f1 w), fst (f2 (snd (f1 w)))],
        d\<lparr>cache := (cache d)(generateKey method path query body
                      \<mapsto> \<lparr>promise = fst (f2 (snd (f1 w))), timestamp = T'\<rparr>)\<rparr>,
        snd (f2 (snd (f1 w))))
     \<and> (\<forall>(e :: 'p RequestDeduplicator) now (f :: 'w \<Rightarrow> 'p \<times> 'w) v c. cache e (generateKey method path query body) = Some c
            \<and> windowMs e \<le> now - timestamp c \<longrightarrow>
          getOrCreate e now method path query body f v =
            (fst (f v),
             e\<lparr>cache := (cache e)(generateKey method path query body
                           \<mapsto> \<lparr>promise = fst (f v), timestamp = now\<rparr>)\<rparr>,
             snd (f v)))"
proof -
  define d' where "d' = d\<lparr>cache := (cache d)(generateKey method path query body
                    \<mapsto> \<lparr>promise = fst (f1 w), timestamp = T\<rparr>)\<rparr>"
  have first: "getOrCreate d T method path query body f1 w = (fst (f1 w), d', snd (f1 w))"
    unfolding d'_def by (rule getOrCreate_miss[OF miss])
  have "case cache d' (generateKey method path query body) of
          None \<Rightarrow> True | Some c \<Rightarrow> windowMs d' \<le> T' - timestamp c"
    using late by (simp add: d'_def)
  from getOrCreate_miss[OF this]
  have second: "getOrCreate d' T' method path query body f2 (snd (f1 w)) =
     (fst (f2 (snd (f1 w))),
      d\<lparr>cache := (cache d)(generateKey method path query body
                    \<mapsto> \<lparr>promise = fst (f2 (snd (f1 w))), timestamp = T'\<rparr>)\<rparr>,
      snd (f2 (snd (f1 w))))"
    by (simp add: d'_def)
  have general: "getOrCreate e now method path query body f v =
            (fst (f v),
             e\<lparr>cache := (cache e)(generateKey method path query body
                           \<mapsto> \<lparr>promise = fst (f v), timestamp = now\<rparr>)\<rparr>,
             snd (f v))"
    if "cache e (generateKey method path query body) = Some c" "windowMs e \<le> now - timestamp c"
    for e :: "'p RequestDeduplicator" and now and f :: "'w \<Rightarrow> 'p \<times> 'w" and v and c
    using that by (intro getOrCreate_miss) simp
  have both: "getOrCreate_calls d method path query body [(T, f1), (T', f2)] w =
       ([fst (f1 w), fst (f2 (snd (f1 w)))],
        d\<lparr>cache := (cache d)(generateKey method path query body
                      \<mapsto> \<lparr>promise = fst (f2 (snd (f1 w))), timestamp = T'\<rparr>)\<rparr>,
        snd (f2 (snd (f1 w))))"
    using first second by (simp add: Let_def)
  show ?thesis
  proof (intro conjI allI impI)
    show "getOrCreate_calls d method path query body [(T, f1), (T', f2)] w =
       ([fst (f1 w), fst (f2 (snd (f1 w)))],
        d\<lparr>cache := (cache d)(generateKey method path query body
                      \<mapsto> \<lparr>promise = fst (f2 (snd (f1 w))), timestamp = T'\<rparr>)\<rparr>,
        snd (f2 (snd (f1 w))))"
      by (rule both)
  next
    fix e :: "'p RequestDeduplicator" and now and f :: "'w \<Rightarrow> 'p \<times> 'w" and v and c
    assume "cache e (generateKey method path query body) = Some c
            \<and> windowMs e \<le> now - timestamp c"
    then have old: "cache e (generateKey method path query body) = Some c"
      "windowMs e \<le> now - timestamp c"
      by simp_all
    show "getOrCreate e now method path query body f v =
            (fst (f v),
             e\<lparr>cache := (cache e)(generateKey method path query body
                           \<mapsto> \<lparr>promise = fst (f v), timestamp = now\<rparr>)\<rparr>,
             snd (f v))"
      by (rule general[OF old])
  qed
qed

theorem getOrCreate_expiry_witness:
  "fst (getOrCreate_calls (new_RequestDeduplicator (Some 5000) 1) ''GET'' ''/athlete'' None Falsy
      [(1000, counting_factory), (6000, counting_factory)] 0) = [0, 1]
   \<and> snd (snd (getOrCreate_calls (new_RequestDeduplicator (Some 5000) 1) ''GET'' ''/athlete'' None
      Falsy [(1000, counting_factory), (6000, counting_factory)] 0)) = 2"
proof -
  have miss: "case cache (new_RequestDeduplicator (Some 5000) 1 :: nat RequestDeduplicator)
                     (generateKey ''GET'' ''/athlete'' None Falsy) of
                None \<Rightarrow> True
              | Some c \<Rightarrow> windowMs (new_RequestDeduplicator (Some 5000) 1 :: nat RequestDeduplicator)
                           \<le> 1000 - timestamp c"
    by (simp add: new_RequestDeduplicator_def)
  have late: "1000 + windowMs (new_RequestDeduplicator (Some 5000) 1 :: nat RequestDeduplicator) \<le> 6000"
    by (simp add: new_RequestDeduplicator_def)
  note run = getOrCreate_expiry[OF miss late, of counting_factory counting_factory 0, THEN conjunct1]
  show ?thesis
    using run by (simp add: counting_factory_def del: getOrCreate_calls.simps)
qed

section \<open>Tokens\<close>


lemma refreshAccessToken_world:
  "snd (refreshAccessToken rt cid cs fetch w) = snd (fetch (refresh_params rt cid cs) w)"
  by (simp add: refreshAccessToken_def Let_def)





text \<open>
  C6: when the stored token is within 300 seconds of expiry and the refresh exchange
  fails, \<open>getToken\<close> rejects with the error of the exchange and leaves the store cleared;
  no value is returned.
\<close>

theorem getToken_refresh_failure_clears_store:
  assumes stored: "tokenStore m = Some token"
    and expired: "isTokenExpired token 300 nowMs"
    and failed: "fst (refreshAccessToken (refreshToken token) (clientId m) (clientSecret m) fetch w)
                   = Inl e"
  shows "getToken m nowMs fetch w =
     (Inl e, m\<lparr>tokenStore := None\<rparr>,
      snd (fetch (refresh_params (refreshToken token) (clientId m) (clientSecret m)) w))"
  using assms
  by (simp add: getToken_def store_get_def store_clear_def Let_def refreshAccessToken_world)

theorem getToken_refresh_failure_clears_store_witness:
  "getToken (sample_manager (Some sample_token)) 5000000
       refusing_fetch 0
     = (Inl (Strava (new_StravaError StravaAuthError ''Failed to refresh token: Bad Request''
                (Some 400) (JsonPayload (JObject [(''message'', JString ''Bad Request'')])))),
        sample_manager None, 1)"
proof -
  have stored: "tokenStore (sample_manager (Some sample_token)) = Some sample_token"
    by (simp add: sample_manager_def)
  have expired: "isTokenExpired sample_token 300 5000000"
    by (simp add: isTokenExpired_def sample_token_def)
  have failed: "fst (refreshAccessToken (refreshToken sample_token)
        (clientId (sample_manager (Some sample_token)))
        (clientSecret (sample_manager (Some sample_token)))
        refusing_fetch 0)
      = Inl (Strava (new_StravaError StravaAuthError ''Failed to refresh token: Bad Request''
                (Some 400) (JsonPayload (JObject [(''message'', JString ''Bad Request'')]))))"
    by (simp add: refreshAccessToken_def refusal_def property_def js_truthy_def Let_def
        refusing_fetch_def)
  from getToken_refresh_failure_clears_store[OF stored expired failed] show ?thesis
    by (simp add: sample_manager_def refusing_fetch_def)
qed

section \<open>Error classification and timeouts\<close>

lemma createErrorFromResponse_statusCode:
  "statusCode (createErrorFromResponse r) = Some (status r)"
  by (simp add: createErrorFromResponse_def Let_def new_StravaError_def
      new_StravaRateLimitError_def new_StravaValidationError_def)

text \<open>
  C7, as stated, fails: a response with status 501 is not ok, yet the error created for
  it is a plain \<open>StravaError\<close>, and 501 is not in the default retryable set.
\<close>

theorem status_501_not_server_error:
  "\<not> ok (sample_response 501)
   \<and> name (createErrorFromResponse (sample_response 501)) = StravaError
   \<and> statusCode (createErrorFromResponse (sample_response 501)) = Some 501
   \<and> isRetryable (statusCodeOf (Strava (createErrorFromResponse (sample_response 501))))
         (mergeConfig None) = Inr False"
  by (simp add: ok_def sample_response_def createErrorFromResponse_def Let_def new_StravaError_def
      isRetryable_def mergeConfig_def DEFAULT_RETRY_CONFIG_def)

text \<open>
  C7 (amended): for every response whose status code is 500, 502, 503 or 504, the response
  is not ok, the error the request layer creates and surfaces is a \<open>StravaServerError\<close>
  carrying that status code, and it is retryable under the default retryable set.
\<close>

theorem server_error_classification:
  assumes "status r \<in> {500, 502, 503, 504}"
  shows "\<not> ok r
    \<and> name (createErrorFromResponse r) = StravaServerError
    \<and> statusCode (createErrorFromResponse r) = Some (status r)
    \<and> isRetryable (statusCodeOf (Strava (createErrorFromResponse r))) (mergeConfig None) = Inr True
    \<and> (fst (fetch w) = Resolved r \<longrightarrow>
         fst (makeRequest None timeout transform fetch w) = Inl (Strava (createErrorFromResponse r)))"
proof -
  have nok: "\<not> ok r" using assms by (auto simp add: ok_def)
  have cls: "name (createErrorFromResponse r) = StravaServerError"
    using assms by (auto simp add: createErrorFromResponse_def Let_def new_StravaError_def)
  have retry: "isRetryable (statusCodeOf (Strava (createErrorFromResponse r))) (mergeConfig None)
      = Inr True"
    using assms
    by (auto simp add: createErrorFromResponse_statusCode isRetryable_def mergeConfig_def
        DEFAULT_RETRY_CONFIG_def)
  have surf: "fst (makeRequest None timeout transform fetch w) = Inl (Strava (createErrorFromResponse r))"
    if "fst (fetch w) = Resolved r"
    using that nok by (simp add: makeRequest_def Let_def)
  from nok cls retry surf show ?thesis
    by (simp add: createErrorFromResponse_statusCode)
qed

theorem server_error_classification_witness:
  "name (createErrorFromResponse (sample_response 503)) = StravaServerError
   \<and> statusCode (createErrorFromResponse (sample_response 503)) = Some 503
   \<and> isRetryable (statusCodeOf (Strava (createErrorFromResponse (sample_response 503))))
       (mergeConfig None) = Inr True
   \<and> fst (makeRequest None 30000 id (responding_fetch 503) 0)
       = Inl (Strava (createErrorFromResponse (sample_response 503)))"
proof -
  have "status (sample_response 503) \<in> {500, 502, 503, 504}"
    by (simp add: sample_response_def)
  moreover have "status (sample_response 503) = 503"
    by (simp add: sample_response_def)
  moreover have "fst (responding_fetch 503 0) = Resolved (sample_response 503)"
    by (simp add: responding_fetch_def)
  ultimately show ?thesis
    using server_error_classification[of "sample_response 503"
        "responding_fetch 503" 0 30000 id]
    by auto
qed

text \<open>
  The timeout's abort where the code turns it into the timeout failure. When \<open>fetch\<close>
  itself rejects with the \<open>AbortError\<close>, and when the response is ok and the read of its
  body rejects with it, \<open>makeRequest\<close> surfaces the timeout failure: its message is the
  timeout message with the configured duration, whatever the abort's own message is; it
  carries no status code and is retryable under every retry configuration. Any other
  \<open>Error\<close> keeps its own message.
\<close>

lemma timeout_failure_retryable:
  "statusCodeOf (Strava (new_StravaError StravaError (timeoutMessage timeout) None
      (CaughtError ''AbortError'' m))) = None
   \<and> isRetryable (statusCodeOf (Strava (new_StravaError StravaError (timeoutMessage timeout) None
      (CaughtError ''AbortError'' m)))) config = Inr True"
  by (simp add: new_StravaError_def isRetryable_def)

lemma makeRequest_fetch_aborted:
  assumes admitted: "(case rateLimiter of Some rl \<Rightarrow> waitForAvailability rl w | None \<Rightarrow> (None, w))
                       = (None, v)"
    and aborted: "fst (fetch v) = Rejected (JsError ''AbortError'' m)"
  shows "fst (makeRequest rateLimiter timeout transform fetch w)
       = Inl (Strava (new_StravaError StravaError (timeoutMessage timeout) None
                (CaughtError ''AbortError'' m)))"
  using assms by (simp add: makeRequest_def Let_def)

lemma makeRequest_ok_body_aborted:
  assumes admitted: "(case rateLimiter of Some rl \<Rightarrow> waitForAvailability rl w | None \<Rightarrow> (None, w))
                       = (None, v)"
    and resolved: "fst (fetch v) = Resolved r" "ok r"
    and aborted: "json_body r = Inl (JsError ''AbortError'' m)"
  shows "fst (makeRequest rateLimiter timeout transform fetch w)
       = Inl (Strava (new_StravaError StravaError (timeoutMessage timeout) None
                (CaughtError ''AbortError'' m)))"
  using assms by (simp add: makeRequest_def Let_def)

lemma makeRequest_catch_other_error:
  "n \<noteq> ''AbortError'' \<Longrightarrow>
     makeRequest_catch timeout (JsError n m)
       = Strava (new_StravaError StravaError m None (CaughtError n m))"
  by simp

lemma makeRequest_fetch_aborted_example:
  "fst (makeRequest None 30000 id aborting_fetch 0)
     = Inl (Strava (new_StravaError StravaError ''Request timeout after 30000ms'' None
              (CaughtError ''AbortError'' ''The operation was aborted'')))"
  by (simp add: makeRequest_def Let_def aborting_fetch_def timeoutMessage_def string_of_int_def
      string_of_nat.simps)

lemma makeRequest_ok_body_aborted_example:
  "fst (makeRequest None 30000 id (cut_off_fetch 200 ''OK'') 0)
     = Inl (Strava (new_StravaError StravaError ''Request timeout after 30000ms'' None
              (CaughtError ''AbortError'' ''The operation was aborted'')))"
  by (simp add: makeRequest_def Let_def cut_off_fetch_def cut_off_response_def ok_def
      timeoutMessage_def string_of_int_def string_of_nat.simps)

text \<open>
  When the response is not ok, the abort of the body read is caught inside
  \<open>createErrorFromResponse\<close>, and the error made from the status is what \<open>makeRequest\<close>
  surfaces, for every status and every abort message.
\<close>

lemma makeRequest_error_body_aborted:
  assumes admitted: "(case rateLimiter of Some rl \<Rightarrow> waitForAvailability rl w | None \<Rightarrow> (None, w))
                       = (None, v)"
    and resolved: "fst (fetch v) = Resolved r" "\<not> ok r"
    and aborted: "json_body r = Inl (JsError ''AbortError'' m)"
  shows "fst (makeRequest rateLimiter timeout transform fetch w)
       = Inl (Strava (createErrorFromResponse r))
     \<and> statusCodeOf (Strava (createErrorFromResponse r)) = Some (status r)"
  using assms by (simp add: makeRequest_def Let_def createErrorFromResponse_statusCode)

text \<open>
  C8 fails of the code at this input: the network call answers 404 and the timeout
  aborts the read of the body. The failure \<open>makeRequest\<close> surfaces is not the timeout
  failure but a \<open>StravaNotFoundError\<close>; it carries the status code 404 and is not
  retryable under the default configuration.
\<close>

theorem timeout_during_error_body:
  "fst (makeRequest None 30000 id (cut_off_fetch 404 ''Not Found'') 0)
     = Inl (Strava (new_StravaError StravaNotFoundError ''HTTP 404: Not Found'' (Some 404) NoPayload))
   \<and> statusCodeOf (Strava (new_StravaError StravaNotFoundError ''HTTP 404: Not Found'' (Some 404)
        NoPayload)) = Some 404
   \<and> isRetryable (Some 404) (mergeConfig None) = Inr False
   \<and> fst (makeRequest None 30000 id (cut_off_fetch 404 ''Not Found'') 0)
       \<noteq> Inl (Strava (new_StravaError StravaError ''Request timeout after 30000ms'' None
                (CaughtError ''AbortError'' ''The operation was aborted'')))"
  by (simp add: makeRequest_def Let_def cut_off_fetch_def cut_off_response_def ok_def
      createErrorFromResponse_def property_def new_StravaError_def
      extractRateLimitInfo_def header_number_def header_first_number_def
      isRetryable_def mergeConfig_def DEFAULT_RETRY_CONFIG_def
      string_of_int_def string_of_nat.simps)

end
